theory Spec2Isabelle
  imports Complex_Main
begin

section \<open>JavaScript values\<close>

text \<open>
  The ETL core of the advocacy platform (\<^verbatim>\<open>src/etl/transformer.ts\<close>,
  \<^verbatim>\<open>src/etl/validator.ts\<close>, \<^verbatim>\<open>src/etl/pipeline.ts\<close>) works on values decoded
  from JSON files whose static types (\<^verbatim>\<open>Record<string, unknown>\<close>, \<^verbatim>\<open>as string\<close>)
  are not checked when the program runs. Raw values are therefore one datatype of
  dynamically typed values.

  Numbers are the finite numbers, with exact arithmetic, and \<^verbatim>\<open>NaN\<close>: the rounding
  of IEEE doubles and the two infinities are outside the model. A \<^verbatim>\<open>Date\<close> is its
  time value in milliseconds, or the invalid date. A string is a list of 8-bit
  characters. An object is the list of its own properties.
\<close>

datatype jsnum = NaN | Num rat

datatype jsdate = InvalidDate | Date int

datatype jsval =
    JUndefined
  | JNull
  | JBool bool
  | JNumber jsnum
  | JString string
  | JDate jsdate
  | JArray "jsval list"
  | JObject "(string \<times> jsval) list"

text \<open>
  What the language and its standard library do, and the repository does not define, is a
  parameter of the model: \<^verbatim>\<open>Date.parse\<close> on a string (\<open>None\<close> for \<^verbatim>\<open>NaN\<close>),
  \<^verbatim>\<open>Number\<close> on a string, \<^verbatim>\<open>String\<close> on a finite number and on a date, and the
  text \<^verbatim>\<open>${Date.now()}_${Math.random().toString(36).substr(2, 9)}\<close> of the \<open>n\<close>-th
  generated identifier.
\<close>

record runtime =
  dateParse :: "string \<Rightarrow> int option"
  stringToNumber :: "string \<Rightarrow> jsnum"
  numberToString :: "rat \<Rightarrow> string"
  dateToString :: "jsdate \<Rightarrow> string"
  freshToken :: "nat \<Rightarrow> string"

text \<open>Truthiness (\<^verbatim>\<open>ToBoolean\<close>), as used by \<^verbatim>\<open>!x\<close>, \<^verbatim>\<open>x && y\<close>, \<^verbatim>\<open>x || y\<close>.\<close>

fun truthy :: "jsval \<Rightarrow> bool" where
  "truthy JUndefined = False"
| "truthy JNull = False"
| "truthy (JBool b) = b"
| "truthy (JNumber NaN) = False"
| "truthy (JNumber (Num r)) = (r \<noteq> 0)"
| "truthy (JString s) = (s \<noteq> [])"
| "truthy (JDate d) = True"
| "truthy (JArray xs) = True"
| "truthy (JObject kvs) = True"

text \<open>\<^verbatim>\<open>typeof v === 'object' && v !== null\<close>: arrays and dates are objects too.\<close>

fun isObject :: "jsval \<Rightarrow> bool" where
  "isObject (JDate d) = True"
| "isObject (JArray xs) = True"
| "isObject (JObject kvs) = True"
| "isObject v = False"

text \<open>
  Reading a property \<^verbatim>\<open>v.k\<close> of a value that is neither \<^verbatim>\<open>null\<close> nor
  \<^verbatim>\<open>undefined\<close>, for the property names the ETL code reads: a missing property, and
  any property of a primitive, an array or a date, is \<^verbatim>\<open>undefined\<close>.
\<close>

fun getProp :: "jsval \<Rightarrow> string \<Rightarrow> jsval" where
  "getProp (JObject kvs) k = (case map_of kvs k of None \<Rightarrow> JUndefined | Some v \<Rightarrow> v)"
| "getProp v k = JUndefined"

text \<open>
  \<^verbatim>\<open>String(v)\<close>. An array is the texts of its elements joined by commas, with
  \<^verbatim>\<open>null\<close> and \<^verbatim>\<open>undefined\<close> elements empty; a plain object is
  \<^verbatim>\<open>[object Object]\<close>.
\<close>

fun joinComma :: "string list \<Rightarrow> string" where
  "joinComma [] = []"
| "joinComma [s] = s"
| "joinComma (s # t # ss) = s @ '','' @ joinComma (t # ss)"

fun toStringJS :: "runtime \<Rightarrow> jsval \<Rightarrow> string" where
  "toStringJS rt JUndefined = ''undefined''"
| "toStringJS rt JNull = ''null''"
| "toStringJS rt (JBool b) = (if b then ''true'' else ''false'')"
| "toStringJS rt (JNumber NaN) = ''NaN''"
| "toStringJS rt (JNumber (Num r)) = numberToString rt r"
| "toStringJS rt (JString s) = s"
| "toStringJS rt (JDate d) = dateToString rt d"
| "toStringJS rt (JArray xs) =
     joinComma (map (\<lambda>x. if x = JNull \<or> x = JUndefined then [] else toStringJS rt x) xs)"
| "toStringJS rt (JObject kvs) = ''[object Object]''"

text \<open>\<^verbatim>\<open>Number(v)\<close>.\<close>

fun toNumber :: "runtime \<Rightarrow> jsval \<Rightarrow> jsnum" where
  "toNumber rt JUndefined = NaN"
| "toNumber rt JNull = Num 0"
| "toNumber rt (JBool b) = (if b then Num 1 else Num 0)"
| "toNumber rt (JNumber n) = n"
| "toNumber rt (JString s) = stringToNumber rt s"
| "toNumber rt (JDate InvalidDate) = NaN"
| "toNumber rt (JDate (Date t)) = Num (of_int t)"
| "toNumber rt (JArray xs) = stringToNumber rt (toStringJS rt (JArray xs))"
| "toNumber rt (JObject kvs) = stringToNumber rt (toStringJS rt (JObject kvs))"

text \<open>
  String methods. White space is the ASCII white space; letters are the ASCII letters.
\<close>

definition isWhiteSpace :: "char \<Rightarrow> bool" where
  "isWhiteSpace c = (c \<in> set [CHR 0x09, CHR 0x0A, CHR 0x0B, CHR 0x0C, CHR 0x0D, CHR '' ''])"

definition trim :: "string \<Rightarrow> string" where
  "trim s = rev (dropWhile isWhiteSpace (rev (dropWhile isWhiteSpace s)))"

definition toLowerChar :: "char \<Rightarrow> char" where
  "toLowerChar c =
     (case map_of (zip ''ABCDEFGHIJKLMNOPQRSTUVWXYZ'' ''abcdefghijklmnopqrstuvwxyz'') c of
        None \<Rightarrow> c
      | Some l \<Rightarrow> l)"

definition toLowerCase :: "string \<Rightarrow> string" where
  "toLowerCase s = map toLowerChar s"

text \<open>
  \<^verbatim>\<open>new Date(t)\<close> for a number: the time value is clipped to the range of dates and
  truncated towards zero.
\<close>

definition newDate :: "rat \<Rightarrow> jsdate" where
  "newDate t =
     (if \<bar>t\<bar> > 8640000000000000 then InvalidDate
      else Date (if 0 \<le> t then \<lfloor>t\<rfloor> else \<lceil>t\<rceil>))"

text \<open>
  A \<^verbatim>\<open>Map\<close> keeps its entries in the order in which their keys were first set.
  The loop of each function of the deduplicator is a left fold of its body, named
  after the function, over the list; \<^verbatim>\<open>reduce\<close> is a left fold as well.
\<close>

primrec mapSet :: "'k \<Rightarrow> 'v \<Rightarrow> ('k \<times> 'v) list \<Rightarrow> ('k \<times> 'v) list" where
  "mapSet k v [] = [(k, v)]"
| "mapSet k v (e # es) = (if fst e = k then (k, v) # es else e # mapSet k v es)"

definition mapGet :: "('k \<times> 'v) list \<Rightarrow> 'k \<Rightarrow> 'v option" where
  "mapGet m k = map_of m k"

definition mapHas :: "('k \<times> 'v) list \<Rightarrow> 'k \<Rightarrow> bool" where
  "mapHas m k = (map_of m k \<noteq> None)"

definition mapValues :: "('k \<times> 'v) list \<Rightarrow> 'v list" where
  "mapValues m = map snd m"

section \<open>The canonical entity (\<^verbatim>\<open>types\<close>)\<close>

text \<open>
  The fields \<open>name\<close>, \<open>email\<close> and the two \<open>platform\<close> fields are filled through
  unchecked casts, so they hold whatever value the raw record had.
\<close>

record socialHandle =
  platform :: jsval
  handle :: string

record socialPost =
  postId :: string
  post_platform :: jsval
  url :: "string option"
  likes :: rat
  comments :: rat
  shares :: rat
  reach :: rat
  engagement :: rat

record salesAttribution =
  sale_programId :: string
  amount :: rat

record program =
  programId :: string
  programName :: string

record user =
  userId :: string
  name :: jsval
  email :: jsval
  socialHandles :: "socialHandle list"
  programs :: "program list"
  posts :: "socialPost list"
  salesAttributions :: "salesAttribution list"
  joinDate :: "jsdate option"
  totalEngagement :: rat
  totalSales :: rat

text \<open>
  The types that \<^verbatim>\<open>userSchema\<close> declares for these fields: \<open>name\<close> and
  \<open>email\<close> are strings or absent, and a platform is a member of the enumeration.
\<close>

definition socialPlatformSchema :: "string list" where
  "socialPlatformSchema =
     [''instagram'', ''facebook'', ''twitter'', ''tiktok'', ''youtube'', ''linkedin'', ''other'']"




section \<open>The deduplicator (\<^verbatim>\<open>pipeline.ts\<close>)\<close>

text \<open>
  The counts, the amounts and the totals of an entity are finite numbers, and so is its
  score: the comparisons \<^verbatim>\<open>>\<close> and \<^verbatim>\<open>===\<close> of two scores are those of
  the numbers. A score that is \<^verbatim>\<open>NaN\<close>, which is neither higher than nor equal to
  any score, is outside the model.
\<close>

definition calculateCompletenessScore :: "user \<Rightarrow> rat" where
  "calculateCompletenessScore u =
     (if truthy (name u) then 1 else 0)
     + (if truthy (email u) then 1 else 0)
     + (if joinDate u \<noteq> None then 1 else 0)
     + of_nat (length (socialHandles u)) * 2
     + of_nat (length (programs u)) * 3
     + of_nat (length (posts u))
     + of_nat (length (salesAttributions u)) * 5
     + totalEngagement u
     + totalSales u"

definition handleKey :: "runtime \<Rightarrow> socialHandle \<Rightarrow> string" where
  "handleKey rt h = toStringJS rt (platform h) @ '':'' @ handle h"

definition deduplicateSocialHandles_step ::
    "runtime \<Rightarrow> (string \<times> socialHandle) list \<Rightarrow> socialHandle \<Rightarrow> (string \<times> socialHandle) list" where
  "deduplicateSocialHandles_step rt seen h =
     (if \<not> mapHas seen (handleKey rt h) then mapSet (handleKey rt h) h seen else seen)"

definition deduplicateSocialHandles :: "runtime \<Rightarrow> socialHandle list \<Rightarrow> socialHandle list" where
  "deduplicateSocialHandles rt handles =
     mapValues (foldl (deduplicateSocialHandles_step rt) [] handles)"

definition deduplicatePrograms_step ::
    "(string \<times> program) list \<Rightarrow> program \<Rightarrow> (string \<times> program) list" where
  "deduplicatePrograms_step seen p =
     (if \<not> mapHas seen (programId p) then mapSet (programId p) p seen else seen)"

definition deduplicatePrograms :: "program list \<Rightarrow> program list" where
  "deduplicatePrograms ps = mapValues (foldl deduplicatePrograms_step [] ps)"

definition deduplicatePosts_step ::
    "(string \<times> socialPost) list \<Rightarrow> socialPost \<Rightarrow> (string \<times> socialPost) list" where
  "deduplicatePosts_step seen post =
     (case mapGet seen (postId post) of
        None \<Rightarrow> mapSet (postId post) post seen
      | Some existing \<Rightarrow>
          if engagement post > engagement existing
          then mapSet (postId post) post seen else seen)"

definition deduplicatePosts :: "socialPost list \<Rightarrow> socialPost list" where
  "deduplicatePosts ps = mapValues (foldl deduplicatePosts_step [] ps)"

definition deduplicateSalesAttributions_step ::
    "(string \<times> rat) list \<Rightarrow> salesAttribution \<Rightarrow> (string \<times> rat) list" where
  "deduplicateSalesAttributions_step salesMap attribution =
     (let current = (case mapGet salesMap (sale_programId attribution) of
                       None \<Rightarrow> 0
                     | Some c \<Rightarrow> if c \<noteq> 0 then c else 0)
      in mapSet (sale_programId attribution) (current + amount attribution) salesMap)"

definition deduplicateSalesAttributions :: "salesAttribution list \<Rightarrow> salesAttribution list" where
  "deduplicateSalesAttributions attributions =
     map (\<lambda>(pid, amt). \<lparr>sale_programId = pid, amount = amt\<rparr>)
       (foldl deduplicateSalesAttributions_step [] attributions)"

definition mergeUsers :: "runtime \<Rightarrow> user \<Rightarrow> user \<Rightarrow> user" where
  "mergeUsers rt user1 user2 =
     \<lparr>userId = userId user1,
      name = (if truthy (name user1) then name user1 else name user2),
      email = (if truthy (email user1) then email user1 else email user2),
      socialHandles = deduplicateSocialHandles rt (socialHandles user1 @ socialHandles user2),
      programs = deduplicatePrograms (programs user1 @ programs user2),
      posts = deduplicatePosts (posts user1 @ posts user2),
      salesAttributions =
        deduplicateSalesAttributions (salesAttributions user1 @ salesAttributions user2),
      joinDate = (if joinDate user1 \<noteq> None then joinDate user1 else joinDate user2),
      totalEngagement = 0,
      totalSales = 0\<rparr>"

definition deduplicateUsers_step :: "runtime \<Rightarrow> (string \<times> user) list \<Rightarrow> user \<Rightarrow> (string \<times> user) list" where
  "deduplicateUsers_step rt userMap u =
     (case mapGet userMap (userId u) of
        None \<Rightarrow> mapSet (userId u) u userMap
      | Some existing \<Rightarrow>
          let existingScore = calculateCompletenessScore existing;
              newScore = calculateCompletenessScore u
          in if newScore > existingScore then mapSet (userId u) u userMap
             else if newScore = existingScore
             then mapSet (userId u) (mergeUsers rt existing u) userMap
             else userMap)"

definition deduplicateUsers :: "runtime \<Rightarrow> user list \<Rightarrow> user list" where
  "deduplicateUsers rt users = mapValues (foldl (deduplicateUsers_step rt) [] users)"

definition recalculateTotals :: "user \<Rightarrow> user" where
  "recalculateTotals u =
     u\<lparr>totalEngagement := foldl (\<lambda>sum post. sum + engagement post) 0 (posts u),
       totalSales := foldl (\<lambda>sum sale. sum + amount sale) 0 (salesAttributions u)\<rparr>"

text \<open>
  What \<^verbatim>\<open>runPipeline\<close> does with a full batch, and with the last partial one: the
  batch is deduplicated, the users whose identifier an earlier batch has loaded are
  dropped, and the totals of the others are recomputed; the result is the list given to
  \<^verbatim>\<open>loadUserBatch\<close>, with the identifiers processed so far.
\<close>

definition processBatch :: "runtime \<Rightarrow> string set \<Rightarrow> user list \<Rightarrow> user list \<times> string set" where
  "processBatch rt processedUserIds currentBatch =
     (let deduplicatedBatch = deduplicateUsers rt currentBatch;
          newUsers = filter (\<lambda>u. userId u \<notin> processedUserIds) deduplicatedBatch
      in (map recalculateTotals newUsers, processedUserIds \<union> userId ` set newUsers))"

section \<open>The transformer (\<^verbatim>\<open>transformer.ts\<close>)\<close>

text \<open>
  The only failure of the transformer is the \<^verbatim>\<open>TypeError\<close> of a method call
  (\<^verbatim>\<open>trim\<close>, \<^verbatim>\<open>replace\<close>) on a value that is not a string, or of a property
  read on \<^verbatim>\<open>null\<close> or \<^verbatim>\<open>undefined\<close>.
\<close>

datatype error = TypeError

text \<open>
  The test \<^verbatim>\<open>v && v !== null && v.trim() !== ''\<close>, which guards every identifier
  and the post URL: \<open>Some s\<close> when it holds of the string \<open>s\<close>, \<open>None\<close> when it
  does not, and a \<^verbatim>\<open>TypeError\<close> when \<open>v\<close> is truthy and has no \<^verbatim>\<open>trim\<close>.
\<close>

definition nonBlankString :: "jsval \<Rightarrow> error + string option" where
  "nonBlankString v =
     (if truthy v \<and> v \<noteq> JNull
      then (case v of
              JString s \<Rightarrow> Inr (if trim s \<noteq> [] then Some s else None)
            | _ \<Rightarrow> Inl TypeError)
      else Inr None)"

text \<open>A generated identifier takes the next token of the run.\<close>

definition generateId :: "runtime \<Rightarrow> string \<Rightarrow> nat \<Rightarrow> string \<times> nat" where
  "generateId rt prefix n = (prefix @ freshToken rt n, Suc n)"

definition normalizeSocialHandle :: "string \<Rightarrow> string" where
  "normalizeSocialHandle h = trim (toLowerCase (dropWhile (\<lambda>c. c = CHR ''@'') h))"

definition parseTimestamp :: "runtime \<Rightarrow> jsval \<Rightarrow> jsdate option" where
  "parseTimestamp rt v =
     (if \<not> truthy v then None
      else case v of
          JDate d \<Rightarrow> Some d
        | JNumber (Num x) \<Rightarrow> Some (newDate (if x > 10000000000 then x else x * 1000))
        | JString s \<Rightarrow> (case dateParse rt s of None \<Rightarrow> None | Some t \<Rightarrow> Some (Date t))
        | _ \<Rightarrow> None)"

definition orZero :: "rat \<Rightarrow> rat" where
  "orZero x = (if x \<noteq> 0 then x else 0)"

definition calculateEngagement :: "socialPost \<Rightarrow> rat" where
  "calculateEngagement post = orZero (likes post) + orZero (comments post) + orZero (shares post)"

text \<open>\<^verbatim>\<open>isNaN(n) ? 0 : n\<close>.\<close>

definition nanToZero :: "jsnum \<Rightarrow> rat" where
  "nanToZero n = (case n of NaN \<Rightarrow> 0 | Num r \<Rightarrow> r)"

subsection \<open>Social handles\<close>

definition transformSocialHandles_item :: "jsval \<Rightarrow> error + socialHandle" where
  "transformSocialHandles_item h =
     (let rawHandle = getProp h ''handle'' in
      if truthy rawHandle
      then (case rawHandle of
              JString s \<Rightarrow> Inr \<lparr>platform = getProp h ''platform'', handle = normalizeSocialHandle s\<rparr>
            | _ \<Rightarrow> Inl TypeError)
      else Inr \<lparr>platform = getProp h ''platform'', handle = []\<rparr>)"

fun transformSocialHandles_map :: "jsval list \<Rightarrow> error + socialHandle list" where
  "transformSocialHandles_map [] = Inr []"
| "transformSocialHandles_map (h # hs) =
     (case transformSocialHandles_item h of
        Inl e \<Rightarrow> Inl e
      | Inr x \<Rightarrow> (case transformSocialHandles_map hs of
                    Inl e \<Rightarrow> Inl e
                  | Inr xs \<Rightarrow> Inr (x # xs)))"

definition transformSocialHandles :: "jsval list \<Rightarrow> error + socialHandle list" where
  "transformSocialHandles handles =
     (if handles = [] then Inr []
      else case transformSocialHandles_map (filter isObject handles) of
             Inl e \<Rightarrow> Inl e
           | Inr hs \<Rightarrow> Inr (filter (\<lambda>h. handle h \<noteq> [] \<and> truthy (platform h)) hs))"

subsection \<open>Social posts\<close>

definition transformSocialPosts_item :: "runtime \<Rightarrow> nat \<Rightarrow> jsval \<Rightarrow> error + (socialPost \<times> nat)" where
  "transformSocialPosts_item rt n post =
     (let platform' = getProp post ''platform'' in
      case nonBlankString (getProp post ''task_id'') of
        Inl e \<Rightarrow> Inl e
      | Inr taskId \<Rightarrow>
          let (finalTaskId, n') =
                (case taskId of Some s \<Rightarrow> (s, n) | None \<Rightarrow> generateId rt ''task_'' n);
              safeLikes = toNumber rt (getProp post ''likes'');
              safeComments = toNumber rt (getProp post ''comments'');
              safeShares = toNumber rt (getProp post ''shares'');
              safeReach = toNumber rt (getProp post ''reach'')
          in case nonBlankString (getProp post ''post_url'') of
               Inl e \<Rightarrow> Inl e
             | Inr postUrl \<Rightarrow>
                 let transformed =
                       \<lparr>postId = finalTaskId,
                        post_platform = (if truthy platform' \<and> platform' \<noteq> JNull
                                         then platform' else JString ''other''),
                        url = postUrl,
                        likes = nanToZero safeLikes,
                        comments = nanToZero safeComments,
                        shares = nanToZero safeShares,
                        reach = nanToZero safeReach,
                        engagement = 0\<rparr>
                 in Inr (transformed\<lparr>engagement := calculateEngagement transformed\<rparr>, n'))"

fun transformSocialPosts_map :: "runtime \<Rightarrow> nat \<Rightarrow> jsval list \<Rightarrow> error + (socialPost list \<times> nat)" where
  "transformSocialPosts_map rt n [] = Inr ([], n)"
| "transformSocialPosts_map rt n (p # ps) =
     (case transformSocialPosts_item rt n p of
        Inl e \<Rightarrow> Inl e
      | Inr (x, n') \<Rightarrow> (case transformSocialPosts_map rt n' ps of
                          Inl e \<Rightarrow> Inl e
                        | Inr (xs, n'') \<Rightarrow> Inr (x # xs, n'')))"

definition transformSocialPosts :: "runtime \<Rightarrow> nat \<Rightarrow> jsval list \<Rightarrow> error + (socialPost list \<times> nat)" where
  "transformSocialPosts rt n rawPosts =
     (if rawPosts = [] then Inr ([], n)
      else case transformSocialPosts_map rt n (filter isObject rawPosts) of
             Inl e \<Rightarrow> Inl e
           | Inr (ps, n') \<Rightarrow>
               Inr (filter (\<lambda>p. postId p \<noteq> [] \<and> truthy (post_platform p)) ps, n'))"

subsection \<open>Programs\<close>

definition createSalesAttribution :: "string \<Rightarrow> rat \<Rightarrow> salesAttribution" where
  "createSalesAttribution pid amt = \<lparr>sale_programId = pid, amount = amt\<rparr>"

text \<open>The brand of a raw program entry, as \<^verbatim>\<open>transformPrograms\<close> names it.\<close>

definition finalBrand :: "runtime \<Rightarrow> jsval \<Rightarrow> string" where
  "finalBrand rt brand =
     (if truthy brand \<and> brand \<noteq> JNull then toStringJS rt brand else ''Unknown Program'')"

definition transformPrograms_item :: "runtime \<Rightarrow> nat \<Rightarrow> jsval \<Rightarrow> error + (program \<times> nat)" where
  "transformPrograms_item rt n prog =
     (case nonBlankString (getProp prog ''program_id'') of
        Inl e \<Rightarrow> Inl e
      | Inr pid \<Rightarrow>
          let (finalProgramId, n') =
                (case pid of Some s \<Rightarrow> (s, n) | None \<Rightarrow> generateId rt ''program_'' n)
          in Inr (\<lparr>programId = finalProgramId,
                   programName = finalBrand rt (getProp prog ''brand'')\<rparr>, n'))"

fun transformPrograms_map :: "runtime \<Rightarrow> nat \<Rightarrow> jsval list \<Rightarrow> error + (program list \<times> nat)" where
  "transformPrograms_map rt n [] = Inr ([], n)"
| "transformPrograms_map rt n (p # ps) =
     (case transformPrograms_item rt n p of
        Inl e \<Rightarrow> Inl e
      | Inr (x, n') \<Rightarrow> (case transformPrograms_map rt n' ps of
                          Inl e \<Rightarrow> Inl e
                        | Inr (xs, n'') \<Rightarrow> Inr (x # xs, n'')))"

definition keepProgram :: "program \<Rightarrow> bool" where
  "keepProgram p =
     (programId p \<noteq> [] \<and> programName p \<noteq> [] \<and> programName p \<noteq> ''Unknown Program'')"

definition transformPrograms :: "runtime \<Rightarrow> nat \<Rightarrow> jsval \<Rightarrow> error + (program list \<times> nat)" where
  "transformPrograms rt n progs =
     (case progs of
        JArray ps \<Rightarrow>
          (if ps = [] then Inr ([], n)
           else case transformPrograms_map rt n (filter isObject ps) of
                  Inl e \<Rightarrow> Inl e
                | Inr (xs, n') \<Rightarrow> Inr (filter keepProgram xs, n'))
      | _ \<Rightarrow> Inr ([], n))"

subsection \<open>The user\<close>

text \<open>
  The body of the \<^verbatim>\<open>forEach\<close> over \<^verbatim>\<open>advocacy_programs\<close>: the tasks of the
  program are appended to \<open>allPosts\<close>, and its sales are recorded when the program has
  an identifier and the amount is a number above zero.
\<close>

definition extractProgram :: "runtime \<Rightarrow> jsval list \<times> salesAttribution list \<Rightarrow> jsval \<Rightarrow>
    error + (jsval list \<times> salesAttribution list)" where
  "extractProgram rt acc prog =
     (let (allPosts, sales) = acc in
      if isObject prog
      then
        let allPosts' = (case getProp prog ''tasks_completed'' of
                           JArray tasks \<Rightarrow> allPosts @ tasks
                         | _ \<Rightarrow> allPosts);
            salesAmount = toNumber rt (getProp prog ''total_sales_attributed'')
        in case nonBlankString (getProp prog ''program_id'') of
             Inl e \<Rightarrow> Inl e
           | Inr None \<Rightarrow> Inr (allPosts', sales)
           | Inr (Some pid) \<Rightarrow>
               (case salesAmount of
                  NaN \<Rightarrow> Inr (allPosts', sales)
                | Num amt \<Rightarrow>
                    if amt > 0
                    then Inr (allPosts', sales @ [createSalesAttribution pid amt])
                    else Inr (allPosts', sales))
      else Inr (allPosts, sales))"

fun extractPrograms :: "runtime \<Rightarrow> jsval list \<times> salesAttribution list \<Rightarrow> jsval list \<Rightarrow>
    error + (jsval list \<times> salesAttribution list)" where
  "extractPrograms rt acc [] = Inr acc"
| "extractPrograms rt acc (p # ps) =
     (case extractProgram rt acc p of
        Inl e \<Rightarrow> Inl e
      | Inr acc' \<Rightarrow> extractPrograms rt acc' ps)"

definition directHandles :: "jsval \<Rightarrow> jsval list" where
  "directHandles rawData =
     (let instagramHandle = getProp rawData ''instagram_handle'';
          tiktokHandle = getProp rawData ''tiktok_handle''
      in (if truthy instagramHandle \<and> instagramHandle \<noteq> JNull
          then [JObject [(''platform'', JString ''instagram''), (''handle'', instagramHandle)]]
          else [])
       @ (if truthy tiktokHandle \<and> tiktokHandle \<noteq> JNull
          then [JObject [(''platform'', JString ''tiktok''), (''handle'', tiktokHandle)]]
          else []))"

definition transformUser :: "runtime \<Rightarrow> nat \<Rightarrow> jsval \<Rightarrow> error + (user \<times> nat)" where
  "transformUser rt n rawData =
     (if rawData = JNull \<or> rawData = JUndefined then Inl TypeError
      else case nonBlankString (getProp rawData ''user_id'') of
        Inl e \<Rightarrow> Inl e
      | Inr rawUserId \<Rightarrow>
          let (userId', n1) =
                (case rawUserId of Some s \<Rightarrow> (s, n) | None \<Rightarrow> generateId rt ''user_'' n);
              name' = (if truthy (getProp rawData ''name'')
                      then getProp rawData ''name'' else JUndefined);
              email' = (if truthy (getProp rawData ''email'')
                       then getProp rawData ''email'' else JUndefined);
              joinedAt = getProp rawData ''joined_at'';
              joinDate' = parseTimestamp rt (if joinedAt = JNull then JUndefined else joinedAt)
          in case transformSocialHandles (directHandles rawData) of
               Inl e \<Rightarrow> Inl e
             | Inr socialHandles' \<Rightarrow>
                 let advocacyPrograms = getProp rawData ''advocacy_programs'' in
                 case (case advocacyPrograms of
                         JArray progs \<Rightarrow> extractPrograms rt ([], []) progs
                       | _ \<Rightarrow> Inr ([], [])) of
                   Inl e \<Rightarrow> Inl e
                 | Inr (allPosts, sales) \<Rightarrow>
                     (case transformSocialPosts rt n1 allPosts of
                        Inl e \<Rightarrow> Inl e
                      | Inr (posts', n2) \<Rightarrow>
                          (case transformPrograms rt n2 advocacyPrograms of
                             Inl e \<Rightarrow> Inl e
                           | Inr (programs', n3) \<Rightarrow>
                               Inr (\<lparr>userId = userId',
                                     name = name',
                                     email = email',
                                     socialHandles = socialHandles',
                                     programs = programs',
                                     posts = posts',
                                     salesAttributions = sales,
                                     joinDate = joinDate',
                                     totalEngagement =
                                       foldl (\<lambda>sum post. sum + engagement post) 0 posts',
                                     totalSales =
                                       foldl (\<lambda>sum sale. sum + amount sale) 0 sales\<rparr>,
                                    n3))))"

section \<open>The validator (\<^verbatim>\<open>validator.ts\<close>)\<close>

text \<open>
  A schema of the validation library parses a value: \<open>None\<close> when the value is
  rejected, and the parsed value otherwise. \<^verbatim>\<open>z.number()\<close> rejects \<^verbatim>\<open>NaN\<close>,
  \<^verbatim>\<open>z.date()\<close> rejects the invalid date, a union takes the first member that
  accepts, and \<^verbatim>\<open>z.object(shape).passthrough()\<close> parses the property of each key
  of the shape (\<^verbatim>\<open>undefined\<close> when the object does not have it), sets the key in
  its result when the object has it or the parsed value is not \<^verbatim>\<open>undefined\<close>, and
  copies the other properties of the object.
\<close>

type_synonym schema = "jsval \<Rightarrow> jsval option"

definition zString :: schema where
  "zString v = (case v of JString s \<Rightarrow> Some v | _ \<Rightarrow> None)"

definition zNumber :: schema where
  "zNumber v = (case v of JNumber (Num r) \<Rightarrow> Some v | _ \<Rightarrow> None)"

definition zDate :: schema where
  "zDate v = (case v of JDate (Date t) \<Rightarrow> Some v | _ \<Rightarrow> None)"

fun zUnion :: "schema list \<Rightarrow> schema" where
  "zUnion [] v = None"
| "zUnion (s # ss) v = (case s v of Some r \<Rightarrow> Some r | None \<Rightarrow> zUnion ss v)"

definition zTransform :: "schema \<Rightarrow> (jsval \<Rightarrow> jsval) \<Rightarrow> schema" where
  "zTransform s f v = map_option f (s v)"

definition zNullable :: "schema \<Rightarrow> schema" where
  "zNullable s v = (if v = JNull then Some JNull else s v)"

definition zOptional :: "schema \<Rightarrow> schema" where
  "zOptional s v = (if v = JUndefined then Some JUndefined else s v)"

definition zArray :: "schema \<Rightarrow> schema" where
  "zArray s v = (case v of JArray xs \<Rightarrow> map_option JArray (those (map s xs)) | _ \<Rightarrow> None)"

definition zObjectPassthrough :: "(string \<times> schema) list \<Rightarrow> schema" where
  "zObjectPassthrough shape v =
     (case v of
        JObject kvs \<Rightarrow>
          (case those (map (\<lambda>(k, s). map_option (Pair k) (s (getProp v k))) shape) of
             None \<Rightarrow> None
           | Some parsed \<Rightarrow>
               Some (JObject
                 (filter (\<lambda>(k, r). k \<in> fst ` set kvs \<or> r \<noteq> JUndefined) parsed
                  @ filter (\<lambda>(k, x). k \<notin> fst ` set shape) kvs)))
      | _ \<Rightarrow> None)"

text \<open>\<^verbatim>\<open>z.union([z.string(), z.number()]).transform(String).nullable().optional()\<close>\<close>

definition stringOrNumberAsString :: "runtime \<Rightarrow> schema" where
  "stringOrNumberAsString rt =
     zOptional (zNullable (zTransform (zUnion [zString, zNumber]) (\<lambda>v. JString (toStringJS rt v))))"

text \<open>\<^verbatim>\<open>z.union([z.number(), z.string()]).transform(Number).nullable().optional()\<close>\<close>

definition numberOrStringAsNumber :: "runtime \<Rightarrow> schema" where
  "numberOrStringAsNumber rt =
     zOptional (zNullable (zTransform (zUnion [zNumber, zString]) (\<lambda>v. JNumber (toNumber rt v))))"

text \<open>\<^verbatim>\<open>z.string().nullable().optional()\<close>\<close>

definition optionalString :: schema where
  "optionalString = zOptional (zNullable zString)"

text \<open>
  The platform of a post: the text of a string or number, in lower case and trimmed, and
  \<open>other\<close> when that is no platform of the enumeration.
\<close>

definition platformSchema :: "runtime \<Rightarrow> schema" where
  "platformSchema rt =
     zOptional (zNullable (zTransform (zUnion [zString, zNumber])
       (\<lambda>v. let val = trim (toLowerCase (toStringJS rt v))
            in JString (if val \<in> set socialPlatformSchema then val else ''other''))))"

definition flexibleSocialPostSchema :: "runtime \<Rightarrow> schema" where
  "flexibleSocialPostSchema rt =
     zObjectPassthrough
       [(''task_id'', stringOrNumberAsString rt),
        (''platform'', platformSchema rt),
        (''post_url'', optionalString),
        (''likes'', numberOrStringAsNumber rt),
        (''comments'', numberOrStringAsNumber rt),
        (''shares'', numberOrStringAsNumber rt),
        (''reach'', numberOrStringAsNumber rt)]"

definition flexibleProgramSchema :: "runtime \<Rightarrow> schema" where
  "flexibleProgramSchema rt =
     zObjectPassthrough
       [(''program_id'', stringOrNumberAsString rt),
        (''brand'', stringOrNumberAsString rt),
        (''tasks_completed'', zOptional (zNullable (zArray (flexibleSocialPostSchema rt)))),
        (''total_sales_attributed'', numberOrStringAsNumber rt)]"

definition flexibleUserSchema :: "runtime \<Rightarrow> schema" where
  "flexibleUserSchema rt =
     zObjectPassthrough
       [(''user_id'', stringOrNumberAsString rt),
        (''name'', optionalString),
        (''email'', optionalString),
        (''instagram_handle'', optionalString),
        (''tiktok_handle'', optionalString),
        (''advocacy_programs'', zOptional (zNullable (zArray (flexibleProgramSchema rt)))),
        (''joined_at'', zOptional (zNullable (zUnion [zString, zNumber, zDate])))]"

record validationResult =
  success :: bool
  data :: "jsval option"
  isClean :: bool

definition validateUser :: "runtime \<Rightarrow> jsval \<Rightarrow> validationResult" where
  "validateUser rt d =
     (case flexibleUserSchema rt d of
        None \<Rightarrow> \<lparr>success = False, data = None, isClean = False\<rparr>
      | Some raw \<Rightarrow>
          \<lparr>success = True,
           data = Some raw,
           isClean =
             (truthy (getProp raw ''user_id'') \<and> getProp raw ''user_id'' \<noteq> JNull
              \<and> truthy (getProp raw ''name'') \<and> truthy (getProp raw ''email'')
              \<and> truthy (getProp raw ''advocacy_programs'')
              \<and> (case getProp raw ''advocacy_programs'' of
                    JArray progs \<Rightarrow> length progs > 0 | _ \<Rightarrow> False))\<rparr>)"

section \<open>Vocabulary of the proofs\<close>

text \<open>
  The entries of a map built by a deduplication loop have distinct keys, and each value
  is stored under its own key.
\<close>

definition keyed :: "('v \<Rightarrow> 'k) \<Rightarrow> ('k \<times> 'v) list \<Rightarrow> bool" where
  "keyed key m = (distinct (map fst m) \<and> (\<forall>(k, v) \<in> set m. key v = k))"

text \<open>
  What one user does to the entry of its identifier, and what one post does to the entry
  of its identifier.
\<close>

fun resolveUser :: "runtime \<Rightarrow> user option \<Rightarrow> user \<Rightarrow> user option" where
  "resolveUser rt None u = Some u"
| "resolveUser rt (Some existing) u =
     Some (if calculateCompletenessScore u > calculateCompletenessScore existing then u
           else if calculateCompletenessScore u = calculateCompletenessScore existing
           then mergeUsers rt existing u else existing)"

fun resolvePost :: "socialPost option \<Rightarrow> socialPost \<Rightarrow> socialPost option" where
  "resolvePost None p = Some p"
| "resolvePost (Some existing) p =
     Some (if engagement p > engagement existing then p else existing)"


definition currentAmount :: "(string \<times> rat) list \<Rightarrow> string \<Rightarrow> rat" where
  "currentAmount m k = (case map_of m k of None \<Rightarrow> 0 | Some c \<Rightarrow> c)"

definition amountFor :: "string \<Rightarrow> salesAttribution list \<Rightarrow> rat" where
  "amountFor k xs = sum_list (map amount (filter (\<lambda>s. sale_programId s = k) xs))"





section \<open>Example data\<close>

text \<open>
  A runtime for the examples: \<^verbatim>\<open>Number\<close> reads a string of decimal digits (the empty
  string is 0) and is \<^verbatim>\<open>NaN\<close> on any other string of the examples;
  \<^verbatim>\<open>String\<close> prints a natural number in decimal.
\<close>

definition digitValue :: "char \<Rightarrow> nat option" where
  "digitValue c = map_of (zip ''0123456789'' [0, 1, 2, 3, 4, 5, 6, 7, 8, 9]) c"

fun digitsValue :: "nat \<Rightarrow> string \<Rightarrow> nat option" where
  "digitsValue acc [] = Some acc"
| "digitsValue acc (c # cs) =
     (case digitValue c of None \<Rightarrow> None | Some d \<Rightarrow> digitsValue (10 * acc + d) cs)"

fun natToString :: "nat \<Rightarrow> string" where
  "natToString n =
     (if n < 10 then [''0123456789'' ! n]
      else natToString (n div 10) @ [''0123456789'' ! (n mod 10)])"

definition sampleRuntime :: runtime where
  "sampleRuntime =
     \<lparr>dateParse = (\<lambda>s. if s = ''2024-01-01T00:00:00Z'' then Some 1704067200000 else None),
      stringToNumber = (\<lambda>s. case digitsValue 0 s of None \<Rightarrow> NaN | Some n \<Rightarrow> Num (of_nat n)),
      numberToString = (\<lambda>r. natToString (nat \<lfloor>r\<rfloor>)),
      dateToString = (\<lambda>d. ''Invalid Date''),
      freshToken = natToString\<rparr>"

definition emptyUser :: user where
  "emptyUser =
     \<lparr>userId = ''u1'', name = JUndefined, email = JUndefined, socialHandles = [],
      programs = [], posts = [], salesAttributions = [], joinDate = None,
      totalEngagement = 0, totalSales = 0\<rparr>"

definition postT1 :: socialPost where
  "postT1 =
     \<lparr>postId = ''t1'', post_platform = JString ''instagram'', url = None,
      likes = 10, comments = 2, shares = 1, reach = 0, engagement = 13\<rparr>"

definition postT1' :: socialPost where
  "postT1' =
     \<lparr>postId = ''t1'', post_platform = JString ''instagram'', url = None,
      likes = 20, comments = 0, shares = 0, reach = 0, engagement = 20\<rparr>"

text \<open>Two records of the user \<open>u1\<close>, of scores 1 and 15.\<close>

definition userLow :: user where
  "userLow = emptyUser\<lparr>name := JString ''Ann''\<rparr>"

definition userHigh :: user where
  "userHigh = emptyUser\<lparr>name := JString ''Ann'', posts := [postT1], totalEngagement := 13\<rparr>"

text \<open>
  Three raw records of the user \<open>u1\<close> and their entities: two of score 2, each with
  one handle, and one of score 3, with one program.
\<close>

definition handleRecord1 :: jsval where
  "handleRecord1 = JObject [(''user_id'', JString ''u1''), (''instagram_handle'', JString ''ann'')]"

definition handleRecord2 :: jsval where
  "handleRecord2 = JObject [(''user_id'', JString ''u1''), (''tiktok_handle'', JString ''ann'')]"

definition programRecord :: jsval where
  "programRecord = JObject
     [(''user_id'', JString ''u1''),
      (''advocacy_programs'', JArray
         [JObject [(''program_id'', JString ''p1''), (''brand'', JString ''Acme'')]])]"

definition userL1 :: user where
  "userL1 = emptyUser\<lparr>socialHandles := [\<lparr>platform = JString ''instagram'', handle = ''ann''\<rparr>]\<rparr>"

definition userL2 :: user where
  "userL2 = emptyUser\<lparr>socialHandles := [\<lparr>platform = JString ''tiktok'', handle = ''ann''\<rparr>]\<rparr>"

definition userH :: user where
  "userH = emptyUser\<lparr>programs := [\<lparr>programId = ''p1'', programName = ''Acme''\<rparr>]\<rparr>"

text \<open>Two records of the user \<open>u1\<close> with the same score, 69.\<close>

definition userA :: user where
  "userA =
     emptyUser\<lparr>socialHandles := [\<lparr>platform = JString ''instagram'', handle = ''foo''\<rparr>],
               programs := [\<lparr>programId = ''p1'', programName = ''Acme''\<rparr>],
               posts := [postT1],
               salesAttributions := [\<lparr>sale_programId = ''p1'', amount = 45\<rparr>],
               totalEngagement := 13, totalSales := 45\<rparr>"

definition userB :: user where
  "userB =
     emptyUser\<lparr>posts := [postT1'],
               salesAttributions := [\<lparr>sale_programId = ''p1'', amount = 30\<rparr>,
                                     \<lparr>sale_programId = ''p2'', amount = 8\<rparr>],
               totalEngagement := 20, totalSales := 38\<rparr>"




text \<open>The raw record of the example of the specification, and its entity.\<close>

definition specExample :: jsval where
  "specExample = JObject
     [(''user_id'', JString ''u1''),
      (''instagram_handle'', JString ''@Foo''),
      (''advocacy_programs'', JArray
         [JObject [(''program_id'', JString ''p1''),
                   (''brand'', JString ''Acme''),
                   (''tasks_completed'', JArray
                      [JObject [(''task_id'', JString ''t1''),
                                (''platform'', JString ''instagram''),
                                (''likes'', JNumber (Num 10)),
                                (''comments'', JNumber (Num 2)),
                                (''shares'', JNumber (Num 1))]]),
                   (''total_sales_attributed'', JNumber (Num 50))]])]"

definition specUser :: user where
  "specUser =
     emptyUser\<lparr>socialHandles := [\<lparr>platform = JString ''instagram'', handle = ''foo''\<rparr>],
               programs := [\<lparr>programId = ''p1'', programName = ''Acme''\<rparr>],
               posts := [postT1],
               salesAttributions := [\<lparr>sale_programId = ''p1'', amount = 50\<rparr>],
               totalEngagement := 13, totalSales := 50\<rparr>"

text \<open>A raw post with a text for its likes, no shares and no reach.\<close>

definition messyPost :: jsval where
  "messyPost = JObject
     [(''task_id'', JString ''t9''),
      (''platform'', JString ''instagram''),
      (''likes'', JString ''no-data''),
      (''comments'', JNumber (Num 4)),
      (''shares'', JNull)]"

text \<open>
  A raw record whose one program has a brand of one space, and one whose program has no
  brand; each program has a task and sales.
\<close>

definition blankBrandRecord :: jsval where
  "blankBrandRecord = JObject
     [(''user_id'', JString ''u1''),
      (''advocacy_programs'', JArray
         [JObject [(''program_id'', JString ''p1''),
                   (''brand'', JString '' ''),
                   (''tasks_completed'', JArray
                      [JObject [(''task_id'', JString ''t1''),
                                (''platform'', JString ''instagram''),
                                (''likes'', JNumber (Num 20))]]),
                   (''total_sales_attributed'', JNumber (Num 100))]])]"

definition blankBrandUser :: user where
  "blankBrandUser =
     emptyUser\<lparr>programs := [\<lparr>programId = ''p1'', programName = '' ''\<rparr>],
               posts := [postT1'],
               salesAttributions := [\<lparr>sale_programId = ''p1'', amount = 100\<rparr>],
               totalEngagement := 20, totalSales := 100\<rparr>"

definition noBrandProgram :: jsval where
  "noBrandProgram =
     JObject [(''program_id'', JString ''p1''),
              (''brand'', JNull),
              (''tasks_completed'', JArray
                 [JObject [(''task_id'', JString ''t1''),
                           (''platform'', JString ''instagram''),
                           (''likes'', JNumber (Num 20))]]),
              (''total_sales_attributed'', JNumber (Num 100))]"

definition noBrandRecord :: jsval where
  "noBrandRecord = JObject
     [(''user_id'', JString ''u1''), (''advocacy_programs'', JArray [noBrandProgram])]"

definition noBrandUser :: user where
  "noBrandUser =
     emptyUser\<lparr>posts := [postT1'],
               salesAttributions := [\<lparr>sale_programId = ''p1'', amount = 100\<rparr>],
               totalEngagement := 20, totalSales := 100\<rparr>"







text \<open>The raw records of the unit tests of the repository.\<close>

definition cleanData :: jsval where
  "cleanData = JObject
     [(''user_id'', JString ''c6940435''),
      (''name'', JString ''John Doe''),
      (''email'', JString ''john@example.com''),
      (''instagram_handle'', JString ''@john_doe''),
      (''tiktok_handle'', JString ''@johndoe_tt''),
      (''joined_at'', JString ''2024-01-01T00:00:00Z''),
      (''advocacy_programs'', JArray
         [JObject [(''program_id'', JString ''prog1''),
                   (''brand'', JString ''Test Brand''),
                   (''tasks_completed'', JArray
                      [JObject [(''task_id'', JString ''task1''),
                                (''platform'', JString ''Instagram''),
                                (''post_url'', JString ''https://example.com''),
                                (''likes'', JNumber (Num 100)),
                                (''comments'', JNumber (Num 10)),
                                (''shares'', JNumber (Num 5)),
                                (''reach'', JNumber (Num 1000))]]),
                   (''total_sales_attributed'', JNumber (Num (1001 / 2)))]])]"


definition handlesData :: jsval where
  "handlesData = JObject
     [(''user_id'', JString ''user123''),
      (''instagram_handle'', JString ''@JohnDoe''),
      (''tiktok_handle'', JString ''@@johndoe''),
      (''advocacy_programs'', JArray [])]"

definition invalidData :: jsval where
  "invalidData = JObject [(''name'', JNumber (Num 123)), (''advocacy_programs'', JString ''not-an-array'')]"

definition nullData :: jsval where
  "nullData = JObject
     [(''user_id'', JString ''user123''),
      (''name'', JNull), (''email'', JNull), (''instagram_handle'', JNull), (''tiktok_handle'', JNull),
      (''advocacy_programs'', JArray
         [JObject [(''program_id'', JNull),
                   (''brand'', JNull),
                   (''tasks_completed'', JArray
                      [JObject [(''task_id'', JNull),
                                (''platform'', JString ''Instagram''),
                                (''post_url'', JNull),
                                (''likes'', JString ''NaN''),
                                (''comments'', JNull),
                                (''shares'', JNull),
                                (''reach'', JNull)]]),
                   (''total_sales_attributed'', JString ''no-data'')]])]"

definition brandNumber :: jsval where
  "brandNumber = JObject
     [(''user_id'', JString ''user123''),
      (''advocacy_programs'', JArray
         [JObject [(''program_id'', JString ''prog1''),
                   (''brand'', JNumber (Num 12345)),
                   (''tasks_completed'', JArray []),
                   (''total_sales_attributed'', JNumber (Num 100))]])]"

definition nullId :: jsval where
  "nullId = JObject [(''user_id'', JNull), (''name'', JString ''John Doe''), (''advocacy_programs'', JArray [])]"

section \<open>The model on the unit tests of the repository\<close>

text \<open>The definitions that evaluate the transformer and the validator on an example.\<close>

lemmas transformer_defs =
  transformUser_def nonBlankString_def trim_def isWhiteSpace_def directHandles_def
  transformSocialHandles_def transformSocialHandles_item_def normalizeSocialHandle_def
  toLowerCase_def toLowerChar_def parseTimestamp_def extractProgram_def
  createSalesAttribution_def transformSocialPosts_def transformSocialPosts_item_def
  nanToZero_def calculateEngagement_def orZero_def transformPrograms_def
  transformPrograms_item_def finalBrand_def keepProgram_def generateId_def

lemmas validator_defs =
  validateUser_def flexibleUserSchema_def flexibleProgramSchema_def flexibleSocialPostSchema_def
  zObjectPassthrough_def zOptional_def zNullable_def zTransform_def zString_def zNumber_def
  zDate_def zArray_def stringOrNumberAsString_def numberOrStringAsNumber_def optionalString_def
  platformSchema_def socialPlatformSchema_def

text \<open>
  The expectations of the unit tests of the repository
  (\<^verbatim>\<open>tests/unit/transformer.test.ts\<close>, \<^verbatim>\<open>tests/unit/validator.test.ts\<close>) hold of
  the model.
\<close>

lemma test_transform_clean:
  "\<exists>u n. transformUser sampleRuntime 0 cleanData = Inr (u, n)
     \<and> userId u = ''c6940435'' \<and> name u = JString ''John Doe''
     \<and> email u = JString ''john@example.com''
     \<and> length (socialHandles u) = 2 \<and> length (posts u) = 1
     \<and> engagement (posts u ! 0) = 115 \<and> totalEngagement u = 115 \<and> totalSales u = 1001 / 2"
  by (simp add: transformer_defs cleanData_def sampleRuntime_def)

lemma test_transform_handles:
  "\<exists>u n. transformUser sampleRuntime 0 handlesData = Inr (u, n)
     \<and> socialHandles u = [\<lparr>platform = JString ''instagram'', handle = ''johndoe''\<rparr>,
                           \<lparr>platform = JString ''tiktok'', handle = ''johndoe''\<rparr>]"
  by (simp add: transformer_defs handlesData_def)

lemma test_transform_nulls:
  "\<exists>u n. transformUser sampleRuntime 0 nullData = Inr (u, n)
     \<and> userId u = ''user123'' \<and> length (posts u) = 1
     \<and> likes (posts u ! 0) = 0 \<and> comments (posts u ! 0) = 0 \<and> length (programs u) = 0"
  by (simp add: transformer_defs nullData_def sampleRuntime_def digitValue_def)

lemma test_transform_brand_number:
  "\<exists>u n. transformUser sampleRuntime 0 brandNumber = Inr (u, n)
     \<and> programs u = [\<lparr>programId = ''prog1'', programName = ''12345''\<rparr>]"
  by (simp add: transformer_defs brandNumber_def sampleRuntime_def)

lemma test_transform_generated_id:
  "\<exists>u n. transformUser sampleRuntime 0 nullId = Inr (u, n)
     \<and> take 5 (userId u) = ''user_'' \<and> name u = JString ''John Doe''"
  by (simp add: transformer_defs nullId_def sampleRuntime_def)

lemma test_validate_clean:
  "success (validateUser sampleRuntime cleanData) \<and> isClean (validateUser sampleRuntime cleanData)"
  by (simp add: validator_defs cleanData_def trim_def isWhiteSpace_def toLowerCase_def
      toLowerChar_def)

lemma test_validate_invalid: "\<not> success (validateUser sampleRuntime invalidData)"
  by (simp add: validator_defs invalidData_def)

lemma test_validate_nulls: "success (validateUser sampleRuntime nullData)"
  by (simp add: validator_defs nullData_def trim_def isWhiteSpace_def toLowerCase_def
      toLowerChar_def sampleRuntime_def digitValue_def)

section \<open>Properties of the map and of the folds\<close>

lemma map_of_mapSet: "map_of (mapSet k v m) = (map_of m)(k \<mapsto> v)"
  by (induction m) (auto simp: fun_eq_iff)

lemma keys_mapSet:
  "map fst (mapSet k v m) = (if k \<in> fst ` set m then map fst m else map fst m @ [k])"
  by (induction m) auto


lemma set_mapSet: "set (mapSet k v m) \<subseteq> insert (k, v) (set m)"
  by (induction m) auto

lemma distinct_mapSet: "distinct (map fst m) \<Longrightarrow> distinct (map fst (mapSet k v m))"
  by (simp add: keys_mapSet)

lemma foldl_add: "foldl (\<lambda>s x. s + f x) a xs = a + sum_list (map f xs)" for a :: rat
  by (induction xs arbitrary: a) simp_all

lemma keyed_Nil: "keyed key []"
  by (simp add: keyed_def)

lemma keyed_Cons: "keyed key (e # m) \<Longrightarrow> keyed key m"
  by (auto simp: keyed_def)

lemma keyed_mapSet: "keyed key m \<Longrightarrow> key v = k \<Longrightarrow> keyed key (mapSet k v m)"
  unfolding keyed_def using set_mapSet [of k v m] by (auto simp: distinct_mapSet)

lemma keyed_values: "keyed key m \<Longrightarrow> map key (mapValues m) = map fst m"
  by (auto simp: keyed_def mapValues_def)

lemma keyed_lookup: "keyed key m \<Longrightarrow> map_of m k = Some v \<Longrightarrow> key v = k"
  by (auto simp: keyed_def dest: map_of_SomeD)

lemma keyed_filter_absent:
  "keyed key m \<Longrightarrow> k \<notin> fst ` set m \<Longrightarrow> filter (\<lambda>v. key v = k) (map snd m) = []"
  by (induction m) (auto simp: keyed_def)

lemma keyed_filter:
  "keyed key m \<Longrightarrow>
   filter (\<lambda>v. key v = k) (mapValues m) = (case map_of m k of None \<Rightarrow> [] | Some v \<Rightarrow> [v])"
proof (induction m)
  case Nil
  then show ?case by (simp add: mapValues_def)
next
  case (Cons e m)
  obtain k' v' where e: "e = (k', v')" by (cases e)
  have km: "keyed key m" using Cons.prems by (rule keyed_Cons)
  have kv: "key v' = k'" using Cons.prems by (simp add: keyed_def e)
  show ?case
  proof (cases "k' = k")
    case True
    then have "k \<notin> fst ` set m" using Cons.prems by (auto simp: keyed_def e)
    then have "filter (\<lambda>v. key v = k) (map snd m) = []"
      using km by (rule keyed_filter_absent [rotated])
    then show ?thesis using True kv by (simp add: mapValues_def e)
  next
    case False
    then show ?thesis using Cons.IH [OF km] kv by (simp add: mapValues_def e)
  qed
qed

section \<open>Properties of the deduplicator\<close>

subsection \<open>Users\<close>

lemma userId_mergeUsers: "userId (mergeUsers rt a b) = userId a"
  by (simp add: mergeUsers_def)

lemma keyed_deduplicateUsers_step:
  "keyed userId m \<Longrightarrow> keyed userId (deduplicateUsers_step rt m u)"
  by (auto simp: deduplicateUsers_step_def mapGet_def Let_def userId_mergeUsers
      intro!: keyed_mapSet dest: keyed_lookup split: option.splits)

lemma keyed_deduplicateUsers_foldl:
  "keyed userId m \<Longrightarrow> keyed userId (foldl (deduplicateUsers_step rt) m us)"
  by (induction us arbitrary: m) (auto simp: keyed_deduplicateUsers_step)

lemma keys_deduplicateUsers_step:
  "fst ` set (deduplicateUsers_step rt m u) = insert (userId u) (fst ` set m)"
proof -
  have "set (map fst (mapSet (userId u) v m)) = insert (userId u) (fst ` set m)" for v
    by (simp add: keys_mapSet) auto
  moreover have "userId u \<in> fst ` set m" if "map_of m (userId u) = Some e" for e
    using that map_of_eq_None_iff [of m "userId u"] by simp
  ultimately show ?thesis
    by (auto simp: deduplicateUsers_step_def mapGet_def Let_def split: option.splits)
qed

lemma keys_deduplicateUsers_foldl:
  "fst ` set (foldl (deduplicateUsers_step rt) m us) = fst ` set m \<union> userId ` set us"
  by (induction us arbitrary: m) (auto simp: keys_deduplicateUsers_step)

lemma lookup_deduplicateUsers_step:
  "map_of (deduplicateUsers_step rt m u) k =
     (if userId u = k then resolveUser rt (map_of m k) u else map_of m k)"
  by (auto simp: deduplicateUsers_step_def mapGet_def Let_def map_of_mapSet split: option.splits)

lemma lookup_deduplicateUsers_foldl:
  "map_of (foldl (deduplicateUsers_step rt) m us) k =
     foldl (resolveUser rt) (map_of m k) (filter (\<lambda>u. userId u = k) us)"
  by (induction us arbitrary: m) (simp_all add: lookup_deduplicateUsers_step)

lemma deduplicateUsers_group:
  "filter (\<lambda>u. userId u = k) (deduplicateUsers rt users) =
     (case foldl (resolveUser rt) None (filter (\<lambda>u. userId u = k) users) of
        None \<Rightarrow> [] | Some v \<Rightarrow> [v])"
  unfolding deduplicateUsers_def
  using keyed_filter [OF keyed_deduplicateUsers_foldl [OF keyed_Nil, of rt users], of k]
  by (simp add: lookup_deduplicateUsers_foldl)

lemma deduplicateUsers_pair:
  assumes "userId a = userId b"
    and "calculateCompletenessScore a = calculateCompletenessScore b"
  shows "deduplicateUsers rt [a, b] = [mergeUsers rt a b]"
  using assms
  by (simp add: deduplicateUsers_def deduplicateUsers_step_def mapGet_def mapValues_def)

text \<open>
  Claim C10. Whatever the batch, the identifiers of the users that
  \<^verbatim>\<open>deduplicateUsers\<close> returns are pairwise distinct, and they are the identifiers
  of the batch; a merged user has the identifier of the first operand of the merge.
\<close>

theorem C10_deduplicateUsers_distinct_ids:
  "distinct (map userId (deduplicateUsers rt users))
   \<and> set (map userId (deduplicateUsers rt users)) = set (map userId users)
   \<and> userId (mergeUsers rt a b) = userId a"
proof -
  let ?m = "foldl (deduplicateUsers_step rt) [] users"
  have k: "keyed userId ?m"
    using keyed_Nil by (rule keyed_deduplicateUsers_foldl)
  have ids: "map userId (deduplicateUsers rt users) = map fst ?m"
    using keyed_values [OF k] by (simp add: deduplicateUsers_def)
  have "distinct (map fst ?m)" using k by (simp add: keyed_def)
  moreover have "set (map fst ?m) = set (map userId users)"
    using keys_deduplicateUsers_foldl [of rt "[]" users] by simp
  ultimately show ?thesis by (simp add: ids userId_mergeUsers)
qed

text \<open>
  Claim C4, as the code has it. The entities \<open>userL1\<close>, \<open>userL2\<close> and \<open>userH\<close> of
  three raw records have the same identifier and the scores 2, 2 and 3. In a batch of the
  three, in this order, the first two are merged, the merged user has the score 4, and
  \<open>userH\<close> is dropped: the result is the merged user, which has the handle of
  \<open>userL1\<close> and the handle of \<open>userL2\<close> and nothing of \<open>userH\<close>, although
  \<open>userH\<close> has a strictly higher score than \<open>userL1\<close>.
\<close>

theorem C4_third_record_counterexample:
  "transformUser sampleRuntime 0 handleRecord1 = Inr (userL1, 0)
   \<and> transformUser sampleRuntime 0 handleRecord2 = Inr (userL2, 0)
   \<and> transformUser sampleRuntime 0 programRecord = Inr (userH, 0)
   \<and> userId userL1 = userId userH \<and> userId userL2 = userId userH
   \<and> calculateCompletenessScore userL1 = 2
   \<and> calculateCompletenessScore userL2 = 2
   \<and> calculateCompletenessScore userH = 3
   \<and> calculateCompletenessScore (mergeUsers sampleRuntime userL1 userL2) = 4
   \<and> deduplicateUsers sampleRuntime [userL1, userL2, userH] = [mergeUsers sampleRuntime userL1 userL2]
   \<and> deduplicateUsers sampleRuntime [userL1, userL2, userH] \<noteq> [userH]
   \<and> socialHandles (mergeUsers sampleRuntime userL1 userL2)
       = [\<lparr>platform = JString ''instagram'', handle = ''ann''\<rparr>,
          \<lparr>platform = JString ''tiktok'', handle = ''ann''\<rparr>]
   \<and> programs (mergeUsers sampleRuntime userL1 userL2) = []"
proof -
  have t: "transformUser sampleRuntime 0 handleRecord1 = Inr (userL1, 0)"
    "transformUser sampleRuntime 0 handleRecord2 = Inr (userL2, 0)"
    "transformUser sampleRuntime 0 programRecord = Inr (userH, 0)"
    by (simp_all add: transformer_defs handleRecord1_def handleRecord2_def programRecord_def
        userL1_def userL2_def userH_def emptyUser_def sampleRuntime_def)
  have i: "userId userL1 = userId userH" "userId userL2 = userId userH"
    by (simp_all add: userL1_def userL2_def userH_def)
  have s: "calculateCompletenessScore userL1 = 2" "calculateCompletenessScore userL2 = 2"
    "calculateCompletenessScore userH = 3"
    by (simp_all add: calculateCompletenessScore_def userL1_def userL2_def userH_def emptyUser_def)
  have m: "socialHandles (mergeUsers sampleRuntime userL1 userL2)
       = [\<lparr>platform = JString ''instagram'', handle = ''ann''\<rparr>,
          \<lparr>platform = JString ''tiktok'', handle = ''ann''\<rparr>]"
    "programs (mergeUsers sampleRuntime userL1 userL2) = []"
    by (simp_all add: mergeUsers_def userL1_def userL2_def emptyUser_def
        deduplicateSocialHandles_def deduplicateSocialHandles_step_def handleKey_def
        deduplicatePrograms_def mapHas_def mapValues_def)
  have c: "calculateCompletenessScore (mergeUsers sampleRuntime userL1 userL2) = 4"
    using m by (simp add: calculateCompletenessScore_def)
      (simp add: mergeUsers_def userL1_def userL2_def emptyUser_def deduplicatePosts_def
        deduplicateSalesAttributions_def mapValues_def)
  have d: "deduplicateUsers sampleRuntime [userL1, userL2, userH]
      = [mergeUsers sampleRuntime userL1 userL2]"
    using i s c
    by (simp add: deduplicateUsers_def deduplicateUsers_step_def mapGet_def mapValues_def
        userId_mergeUsers)
  have n: "mergeUsers sampleRuntime userL1 userL2 \<noteq> userH"
    using m(2) by (auto simp: userH_def)
  show ?thesis using t i s m c d n by simp
qed

text \<open>
  Claim C4, amended. When exactly two users of a batch, \<open>a\<close> before \<open>b\<close>, have the
  identifier \<open>k\<close> and their completeness scores differ, the one user with the
  identifier \<open>k\<close> that \<^verbatim>\<open>deduplicateUsers\<close> returns is the one of the higher
  score, as it was in the batch: nothing of the other is in it. When a batch has more
  users of one identifier, each is compared with the user stored under the identifier at
  that moment, which is an earlier user or a merge of earlier ones: a user whose score is
  higher than that of the stored user replaces it, and a user whose score is lower
  leaves the map as it is.
\<close>

theorem C4_higher_score_wins:
  "(filter (\<lambda>u. userId u = k) users = [a, b]
      \<and> calculateCompletenessScore a \<noteq> calculateCompletenessScore b
    \<longrightarrow> filter (\<lambda>u. userId u = k) (deduplicateUsers rt users) =
           [if calculateCompletenessScore b > calculateCompletenessScore a then b else a])
   \<and> (mapGet userMap (userId u) = Some existing
      \<and> calculateCompletenessScore u > calculateCompletenessScore existing
    \<longrightarrow> mapGet (deduplicateUsers_step rt userMap u) (userId u) = Some u)
   \<and> (mapGet userMap (userId u) = Some existing
      \<and> calculateCompletenessScore u < calculateCompletenessScore existing
    \<longrightarrow> deduplicateUsers_step rt userMap u = userMap)"
proof (intro conjI impI)
  assume "filter (\<lambda>u. userId u = k) users = [a, b]
      \<and> calculateCompletenessScore a \<noteq> calculateCompletenessScore b"
  then show "filter (\<lambda>u. userId u = k) (deduplicateUsers rt users) =
           [if calculateCompletenessScore b > calculateCompletenessScore a then b else a]"
    by (simp add: deduplicateUsers_group)
next
  assume "mapGet userMap (userId u) = Some existing
      \<and> calculateCompletenessScore u > calculateCompletenessScore existing"
  then show "mapGet (deduplicateUsers_step rt userMap u) (userId u) = Some u"
    by (simp add: mapGet_def lookup_deduplicateUsers_step)
next
  assume "mapGet userMap (userId u) = Some existing
      \<and> calculateCompletenessScore u < calculateCompletenessScore existing"
  then show "deduplicateUsers_step rt userMap u = userMap"
    by (simp add: deduplicateUsers_step_def)
qed

theorem C4_higher_score_wins_witness:
  "filter (\<lambda>u. userId u = ''u1'') [userLow, userHigh] = [userLow, userHigh]
   \<and> calculateCompletenessScore userLow = 1
   \<and> calculateCompletenessScore userHigh = 15
   \<and> filter (\<lambda>u. userId u = ''u1'') (deduplicateUsers sampleRuntime [userLow, userHigh]) = [userHigh]
   \<and> filter (\<lambda>u. userId u = ''u1'') (deduplicateUsers sampleRuntime [userHigh, userLow]) = [userHigh]
   \<and> mapGet [(''u1'', userLow)] (userId userHigh) = Some userLow
   \<and> mapGet (deduplicateUsers_step sampleRuntime [(''u1'', userLow)] userHigh) (userId userHigh)
       = Some userHigh
   \<and> mapGet [(''u1'', userHigh)] (userId userLow) = Some userHigh
   \<and> deduplicateUsers_step sampleRuntime [(''u1'', userHigh)] userLow = [(''u1'', userHigh)]"
proof -
  have f: "filter (\<lambda>u. userId u = ''u1'') [userLow, userHigh] = [userLow, userHigh]"
    and g: "filter (\<lambda>u. userId u = ''u1'') [userHigh, userLow] = [userHigh, userLow]"
    by (simp_all add: userLow_def userHigh_def emptyUser_def)
  have lo: "calculateCompletenessScore userLow = 1"
    by (simp add: calculateCompletenessScore_def userLow_def emptyUser_def)
  have hi: "calculateCompletenessScore userHigh = 15"
    by (simp add: calculateCompletenessScore_def userHigh_def emptyUser_def)
  have m1: "mapGet [(''u1'', userLow)] (userId userHigh) = Some userLow"
    and m2: "mapGet [(''u1'', userHigh)] (userId userLow) = Some userHigh"
    by (simp_all add: mapGet_def userLow_def userHigh_def emptyUser_def)
  have ne: "calculateCompletenessScore userLow \<noteq> calculateCompletenessScore userHigh"
    "calculateCompletenessScore userHigh \<noteq> calculateCompletenessScore userLow"
    and gt: "calculateCompletenessScore userHigh > calculateCompletenessScore userLow"
    and ngt: "\<not> calculateCompletenessScore userLow > calculateCompletenessScore userHigh"
    by (simp_all add: lo hi)
  note t1 = C4_higher_score_wins [of "''u1''" "[userLow, userHigh]" userLow userHigh sampleRuntime
        "[(''u1'', userLow)]" userHigh userLow]
  note t2 = C4_higher_score_wins [of "''u1''" "[userHigh, userLow]" userHigh userLow sampleRuntime
        "[(''u1'', userHigh)]" userLow userHigh]
  have "filter (\<lambda>u. userId u = ''u1'') (deduplicateUsers sampleRuntime [userLow, userHigh]) =
      [if calculateCompletenessScore userHigh > calculateCompletenessScore userLow
       then userHigh else userLow]"
    using t1 f ne(1) by blast
  then have r1: "filter (\<lambda>u. userId u = ''u1'') (deduplicateUsers sampleRuntime [userLow, userHigh]) = [userHigh]"
    by (simp only: gt if_True)
  have s1: "mapGet (deduplicateUsers_step sampleRuntime [(''u1'', userLow)] userHigh) (userId userHigh)
       = Some userHigh"
    using t1 m1 gt by blast
  have "filter (\<lambda>u. userId u = ''u1'') (deduplicateUsers sampleRuntime [userHigh, userLow]) =
      [if calculateCompletenessScore userLow > calculateCompletenessScore userHigh
       then userLow else userHigh]"
    using t2 g ne(2) by blast
  then have r2: "filter (\<lambda>u. userId u = ''u1'') (deduplicateUsers sampleRuntime [userHigh, userLow]) = [userHigh]"
    by (simp only: ngt if_False)
  have s2: "deduplicateUsers_step sampleRuntime [(''u1'', userHigh)] userLow = [(''u1'', userHigh)]"
    using t2 m2 gt by blast
  show ?thesis
    using f lo hi r1 r2 m1 s1 m2 s2 by (intro conjI)
qed

subsection \<open>Posts\<close>

lemma lookup_deduplicatePosts_step:
  "map_of (deduplicatePosts_step m p) k =
     (if postId p = k then resolvePost (map_of m k) p else map_of m k)"
  by (auto simp: deduplicatePosts_step_def mapGet_def map_of_mapSet split: option.splits)

lemma lookup_deduplicatePosts_foldl:
  "map_of (foldl deduplicatePosts_step m ps) k =
     foldl resolvePost (map_of m k) (filter (\<lambda>p. postId p = k) ps)"
  by (induction ps arbitrary: m) (simp_all add: lookup_deduplicatePosts_step)

lemma keyed_deduplicatePosts_step: "keyed postId m \<Longrightarrow> keyed postId (deduplicatePosts_step m p)"
  by (auto simp: deduplicatePosts_step_def mapGet_def intro!: keyed_mapSet split: option.splits)

lemma keyed_deduplicatePosts_foldl:
  "keyed postId m \<Longrightarrow> keyed postId (foldl deduplicatePosts_step m ps)"
  by (induction ps arbitrary: m) (auto simp: keyed_deduplicatePosts_step)

lemma deduplicatePosts_group:
  "filter (\<lambda>p. postId p = k) (deduplicatePosts ps) =
     (case foldl resolvePost None (filter (\<lambda>p. postId p = k) ps) of
        None \<Rightarrow> [] | Some v \<Rightarrow> [v])"
  unfolding deduplicatePosts_def
  using keyed_filter [OF keyed_deduplicatePosts_foldl [OF keyed_Nil, of ps], of k]
  by (simp add: lookup_deduplicatePosts_foldl)

text \<open>Over the posts of one identifier the loop keeps a post of the highest engagement.\<close>

lemma resolvePost_foldl_Some:
  "\<exists>q. foldl resolvePost (Some e) g = Some q \<and> q \<in> insert e (set g)
       \<and> engagement e \<le> engagement q \<and> (\<forall>p \<in> set g. engagement p \<le> engagement q)"
proof (induction g arbitrary: e)
  case Nil
  show ?case by simp
next
  case (Cons p g)
  let ?e' = "if engagement p > engagement e then p else e"
  obtain q where q: "foldl resolvePost (Some ?e') g = Some q" "q \<in> insert ?e' (set g)"
    "engagement ?e' \<le> engagement q" "\<forall>p \<in> set g. engagement p \<le> engagement q"
    using Cons.IH [of ?e'] by blast
  have "engagement e \<le> engagement q" "engagement p \<le> engagement q"
    using q(3) by (auto split: if_splits)
  moreover have "q \<in> insert e (set (p # g))" using q(2) by (auto split: if_splits)
  ultimately show ?case using q(1,4) by auto
qed

lemma resolvePost_foldl_nonempty:
  assumes "g \<noteq> []"
  shows "\<exists>q. foldl resolvePost None g = Some q \<and> q \<in> set g
       \<and> (\<forall>p \<in> set g. engagement p \<le> engagement q)"
proof -
  obtain e g' where g: "g = e # g'" using assms by (cases g) auto
  obtain q where "foldl resolvePost (Some e) g' = Some q" "q \<in> insert e (set g')"
    "engagement e \<le> engagement q" "\<forall>p \<in> set g'. engagement p \<le> engagement q"
    using resolvePost_foldl_Some [of e g'] by blast
  then show ?thesis by (auto simp: g)
qed

lemma filter_append_nonempty:
  "k \<in> f ` set xs \<Longrightarrow> filter (\<lambda>p. f p = k) (xs @ ys) \<noteq> []"
  by (auto simp: filter_empty_conv)

text \<open>
  Claim C6. Two users with the same identifier and the same completeness score are
  merged. For an identifier \<open>pid\<close> that a post of each has, the merged user has exactly
  one post \<open>q\<close> of that identifier; it is a post of one of the two users, and no post of
  that identifier of either has a higher engagement. When each user has one post of the
  identifier, \<open>p1\<close> and \<open>p2\<close>, then \<open>q\<close> is \<open>p2\<close> if its engagement is the higher
  one, and \<open>p1\<close> otherwise: the post of the first user when the engagements are equal.
\<close>

theorem C6_merge_keeps_higher_engagement:
  assumes "userId u1 = userId u2"
    and "calculateCompletenessScore u1 = calculateCompletenessScore u2"
    and "pid \<in> postId ` set (posts u1)" and "pid \<in> postId ` set (posts u2)"
  shows "deduplicateUsers rt [u1, u2] = [mergeUsers rt u1 u2] \<and>
    (\<exists>q. filter (\<lambda>p. postId p = pid) (posts (mergeUsers rt u1 u2)) = [q]
       \<and> q \<in> set (posts u1) \<union> set (posts u2) \<and> postId q = pid
       \<and> (\<forall>p \<in> set (posts u1) \<union> set (posts u2).
             postId p = pid \<longrightarrow> engagement p \<le> engagement q)
       \<and> (\<forall>p1 p2. filter (\<lambda>p. postId p = pid) (posts u1) = [p1]
              \<and> filter (\<lambda>p. postId p = pid) (posts u2) = [p2]
            \<longrightarrow> q = (if engagement p2 > engagement p1 then p2 else p1)))"
proof -
  let ?g = "filter (\<lambda>p. postId p = pid) (posts u1 @ posts u2)"
  have ne: "?g \<noteq> []" using assms(3) by (rule filter_append_nonempty)
  obtain q where q: "foldl resolvePost None ?g = Some q" "q \<in> set ?g"
    "\<forall>p \<in> set ?g. engagement p \<le> engagement q"
    using resolvePost_foldl_nonempty [OF ne] by blast
  have f: "filter (\<lambda>p. postId p = pid) (posts (mergeUsers rt u1 u2)) = [q]"
    using q(1) by (simp add: mergeUsers_def deduplicatePosts_group)
  have pair: "q = (if engagement p2 > engagement p1 then p2 else p1)"
    if "filter (\<lambda>p. postId p = pid) (posts u1) = [p1]"
      "filter (\<lambda>p. postId p = pid) (posts u2) = [p2]" for p1 p2
    using q(1) that by simp
  show ?thesis
    using f q(2,3) pair deduplicateUsers_pair [OF assms(1,2), of rt] by auto
qed

theorem C6_merge_keeps_higher_engagement_witness:
  "userId userA = userId userB
   \<and> calculateCompletenessScore userA = 69 \<and> calculateCompletenessScore userB = 69
   \<and> posts userA = [postT1] \<and> posts userB = [postT1']
   \<and> engagement postT1 = 13 \<and> engagement postT1' = 20
   \<and> deduplicateUsers sampleRuntime [userA, userB] = [mergeUsers sampleRuntime userA userB]
   \<and> filter (\<lambda>p. postId p = ''t1'') (posts (mergeUsers sampleRuntime userA userB)) = [postT1']"
proof -
  have i: "userId userA = userId userB"
    by (simp add: userA_def userB_def)
  have a: "calculateCompletenessScore userA = 69"
    by (simp add: calculateCompletenessScore_def userA_def emptyUser_def postT1_def)
  have b: "calculateCompletenessScore userB = 69"
    by (simp add: calculateCompletenessScore_def userB_def emptyUser_def postT1'_def)
  have pa: "posts userA = [postT1]" and pb: "posts userB = [postT1']"
    by (simp_all add: userA_def userB_def)
  have e: "engagement postT1 = 13" "engagement postT1' = 20"
    by (simp_all add: postT1_def postT1'_def)
  have f1: "filter (\<lambda>p. postId p = ''t1'') (posts userA) = [postT1]"
    and f2: "filter (\<lambda>p. postId p = ''t1'') (posts userB) = [postT1']"
    by (simp_all add: pa pb postT1_def postT1'_def)
  have m1: "''t1'' \<in> postId ` set (posts userA)" and m2: "''t1'' \<in> postId ` set (posts userB)"
    by (simp_all add: pa pb postT1_def postT1'_def)
  from C6_merge_keeps_higher_engagement [OF i _ m1 m2, of sampleRuntime]
  obtain q where d: "deduplicateUsers sampleRuntime [userA, userB] = [mergeUsers sampleRuntime userA userB]"
    and q: "filter (\<lambda>p. postId p = ''t1'') (posts (mergeUsers sampleRuntime userA userB)) = [q]"
    and w: "\<forall>p1 p2. filter (\<lambda>p. postId p = ''t1'') (posts userA) = [p1]
              \<and> filter (\<lambda>p. postId p = ''t1'') (posts userB) = [p2]
            \<longrightarrow> q = (if engagement p2 > engagement p1 then p2 else p1)"
    using a b by auto
  have "q = postT1'" using w f1 f2 e by simp
  then show ?thesis using i a b pa pb e d q by simp
qed

subsection \<open>Sales attributions\<close>

lemma deduplicateSalesAttributions_step_alt:
  "deduplicateSalesAttributions_step m a =
     mapSet (sale_programId a) (currentAmount m (sale_programId a) + amount a) m"
  by (simp add: deduplicateSalesAttributions_step_def currentAmount_def mapGet_def
      split: option.splits)

lemma lookup_sales_step:
  "map_of (deduplicateSalesAttributions_step m a) k =
     (if sale_programId a = k then Some (currentAmount m k + amount a) else map_of m k)"
  by (simp add: deduplicateSalesAttributions_step_alt map_of_mapSet)

lemma currentAmount_sales_step:
  "currentAmount (deduplicateSalesAttributions_step m a) k =
     currentAmount m k + (if sale_programId a = k then amount a else 0)"
  by (simp add: currentAmount_def lookup_sales_step)

lemma amountFor_absent: "k \<notin> sale_programId ` set xs \<Longrightarrow> amountFor k xs = 0"
proof -
  assume "k \<notin> sale_programId ` set xs"
  then have "filter (\<lambda>s. sale_programId s = k) xs = []"
    by (auto simp: filter_empty_conv)
  then show ?thesis by (simp add: amountFor_def)
qed

lemma amountFor_Cons:
  "amountFor k (a # xs) = (if sale_programId a = k then amount a else 0) + amountFor k xs"
  by (simp add: amountFor_def)

lemma amountFor_append: "amountFor k (xs @ ys) = amountFor k xs + amountFor k ys"
  by (simp add: amountFor_def)

lemma lookup_sales_foldl:
  "map_of (foldl deduplicateSalesAttributions_step m xs) k =
     (if k \<in> sale_programId ` set xs then Some (currentAmount m k + amountFor k xs)
      else map_of m k)"
proof (induction xs arbitrary: m)
  case Nil
  show ?case by simp
next
  case (Cons a xs)
  show ?case
    by (simp add: Cons.IH lookup_sales_step currentAmount_sales_step amountFor_Cons
        amountFor_absent)
qed

lemma distinct_sales_foldl:
  "distinct (map fst m) \<Longrightarrow> distinct (map fst (foldl deduplicateSalesAttributions_step m xs))"
  by (induction xs arbitrary: m) (simp_all add: deduplicateSalesAttributions_step_alt distinct_mapSet)

lemma entries_filter:
  "distinct (map fst m) \<Longrightarrow>
   filter (\<lambda>s. sale_programId s = k) (map (\<lambda>(pid, amt). \<lparr>sale_programId = pid, amount = amt\<rparr>) m)
     = (case map_of m k of None \<Rightarrow> [] | Some a \<Rightarrow> [\<lparr>sale_programId = k, amount = a\<rparr>])"
proof (induction m)
  case Nil
  show ?case by simp
next
  case (Cons e m)
  obtain k' v' where e: "e = (k', v')" by (cases e)
  show ?case
  proof (cases "k' = k")
    case True
    then have "k \<notin> fst ` set m" using Cons.prems by (auto simp: e)
    then have "map_of m k = None" by (simp add: map_of_eq_None_iff)
    then show ?thesis using Cons.IH Cons.prems True by (simp add: e)
  next
    case False
    then show ?thesis using Cons.IH Cons.prems by (simp add: e)
  qed
qed

lemma deduplicateSalesAttributions_group:
  "filter (\<lambda>s. sale_programId s = k) (deduplicateSalesAttributions xs) =
     (if k \<in> sale_programId ` set xs
      then [\<lparr>sale_programId = k, amount = amountFor k xs\<rparr>] else [])"
  unfolding deduplicateSalesAttributions_def
  using entries_filter [OF distinct_sales_foldl [of "[]" xs], of k]
  by (simp add: lookup_sales_foldl currentAmount_def)

lemma sum_mapSet:
  "sum_list (map snd (mapSet k v m)) = sum_list (map snd m) - currentAmount m k + v"
  by (induction m) (auto simp: currentAmount_def)

lemma sum_sales_foldl:
  "sum_list (map snd (foldl deduplicateSalesAttributions_step m xs)) =
     sum_list (map snd m) + sum_list (map amount xs)"
  by (induction xs arbitrary: m) (simp_all add: deduplicateSalesAttributions_step_alt sum_mapSet)

lemma deduplicateSalesAttributions_total:
  "sum_list (map amount (deduplicateSalesAttributions xs)) = sum_list (map amount xs)"
proof -
  have "amount \<circ> (\<lambda>(pid, amt). \<lparr>sale_programId = pid, amount = amt\<rparr>) = snd"
    by (auto simp: fun_eq_iff)
  then show ?thesis
    using sum_sales_foldl [of "[]" xs] by (simp add: deduplicateSalesAttributions_def)
qed

text \<open>
  Claim C5. Two users with the same identifier and the same completeness score are
  merged. For every program identifier \<open>pid\<close>, the sales attributions of the merged
  user that have this identifier are: none, when neither user has one; otherwise one
  entry, whose amount is the sum of the amounts that the first user has for \<open>pid\<close> plus
  the sum of those that the second has. So the attributions of one program collapse into
  one entry with the summed amount, and different programs keep entries of their own.
\<close>

theorem C5_merge_sums_sales_per_program:
  assumes "userId u1 = userId u2"
    and "calculateCompletenessScore u1 = calculateCompletenessScore u2"
  shows "deduplicateUsers rt [u1, u2] = [mergeUsers rt u1 u2] \<and>
    filter (\<lambda>s. sale_programId s = pid) (salesAttributions (mergeUsers rt u1 u2)) =
      (if pid \<in> sale_programId ` set (salesAttributions u1)
          \<or> pid \<in> sale_programId ` set (salesAttributions u2)
       then [\<lparr>sale_programId = pid,
              amount =
                sum_list (map amount (filter (\<lambda>s. sale_programId s = pid) (salesAttributions u1)))
                + sum_list (map amount (filter (\<lambda>s. sale_programId s = pid) (salesAttributions u2)))\<rparr>]
       else [])"
  using deduplicateUsers_pair [OF assms, of rt]
  by (simp add: mergeUsers_def deduplicateSalesAttributions_group amountFor_append image_Un)
    (simp add: amountFor_def)

theorem C5_merge_sums_sales_per_program_witness:
  "userId userA = userId userB
   \<and> calculateCompletenessScore userA = 69 \<and> calculateCompletenessScore userB = 69
   \<and> salesAttributions userA = [\<lparr>sale_programId = ''p1'', amount = 45\<rparr>]
   \<and> salesAttributions userB =
       [\<lparr>sale_programId = ''p1'', amount = 30\<rparr>, \<lparr>sale_programId = ''p2'', amount = 8\<rparr>]
   \<and> deduplicateUsers sampleRuntime [userA, userB] = [mergeUsers sampleRuntime userA userB]
   \<and> filter (\<lambda>s. sale_programId s = ''p1'') (salesAttributions (mergeUsers sampleRuntime userA userB))
       = [\<lparr>sale_programId = ''p1'', amount = 75\<rparr>]
   \<and> filter (\<lambda>s. sale_programId s = ''p2'') (salesAttributions (mergeUsers sampleRuntime userA userB))
       = [\<lparr>sale_programId = ''p2'', amount = 8\<rparr>]
   \<and> filter (\<lambda>s. sale_programId s = ''p3'') (salesAttributions (mergeUsers sampleRuntime userA userB))
       = []"
proof -
  have i: "userId userA = userId userB"
    by (simp add: userA_def userB_def)
  have a: "calculateCompletenessScore userA = 69"
    by (simp add: calculateCompletenessScore_def userA_def emptyUser_def postT1_def)
  have b: "calculateCompletenessScore userB = 69"
    by (simp add: calculateCompletenessScore_def userB_def emptyUser_def postT1'_def)
  have ab: "calculateCompletenessScore userA = calculateCompletenessScore userB"
    by (simp add: a b)
  have sa: "salesAttributions userA = [\<lparr>sale_programId = ''p1'', amount = 45\<rparr>]"
    and sb: "salesAttributions userB =
       [\<lparr>sale_programId = ''p1'', amount = 30\<rparr>, \<lparr>sale_programId = ''p2'', amount = 8\<rparr>]"
    by (simp_all add: userA_def userB_def)
  show ?thesis
    using C5_merge_sums_sales_per_program [OF i ab, of sampleRuntime "''p1''"]
      C5_merge_sums_sales_per_program [OF i ab, of sampleRuntime "''p2''"]
      C5_merge_sums_sales_per_program [OF i ab, of sampleRuntime "''p3''"]
    by (simp add: i a b sa sb)
qed

subsection \<open>Merging a user with itself\<close>



















section \<open>Properties of the transformer\<close>

lemma trim_Nil: "trim [] = []"
  by (simp add: trim_def)

lemma orZero_id: "orZero x = x"
  by (simp add: orZero_def)

lemma nonBlankString_Some: "nonBlankString v = Inr (Some s) \<Longrightarrow> v = JString s \<and> s \<noteq> []"
  by (cases v) (auto simp: nonBlankString_def trim_Nil split: if_splits)

lemma finalId_nonempty:
  "nonBlankString v = Inr tid \<Longrightarrow> prefix \<noteq> [] \<Longrightarrow>
   fst (case tid of Some s \<Rightarrow> (s, n) | None \<Rightarrow> generateId rt prefix n) \<noteq> []"
  by (cases tid) (auto simp: generateId_def dest: nonBlankString_Some)

lemma filter_all2_id:
  "list_all2 R xs ys \<Longrightarrow> (\<And>x y. R x y \<Longrightarrow> P y) \<Longrightarrow> filter P ys = ys"
  by (induction rule: list_all2_induct) auto

subsection \<open>Totals\<close>

lemma transformUser_totals:
  "transformUser rt n raw = Inr (u, n') \<Longrightarrow>
   totalEngagement u = sum_list (map engagement (posts u))
   \<and> totalSales u = sum_list (map amount (salesAttributions u))"
  by (auto simp: transformUser_def Let_def foldl_add
      split: if_splits sum.splits prod.splits)

lemma recalculateTotals_totals:
  "totalEngagement (recalculateTotals u) = sum_list (map engagement (posts (recalculateTotals u)))
   \<and> totalSales (recalculateTotals u)
       = sum_list (map amount (salesAttributions (recalculateTotals u)))"
  by (simp add: recalculateTotals_def foldl_add)

text \<open>
  Claim C2. The totals of an entity that \<^verbatim>\<open>transformUser\<close> returns are the sum of the
  engagement of its posts and the sum of the amounts of its sales attributions, whatever
  else the raw record holds; and so are the totals of every entity of the list that
  \<^verbatim>\<open>runPipeline\<close> gives to the loader for a batch: the deduplicated batch, without
  the users of earlier batches, with its totals recomputed.
\<close>

theorem C2_totals_are_sums:
  "(\<forall>u n'. transformUser rt n raw = Inr (u, n') \<longrightarrow>
      totalEngagement u = sum_list (map engagement (posts u))
      \<and> totalSales u = sum_list (map amount (salesAttributions u)))
   \<and> (\<forall>u \<in> set (fst (processBatch rt processedUserIds currentBatch)).
      totalEngagement u = sum_list (map engagement (posts u))
      \<and> totalSales u = sum_list (map amount (salesAttributions u)))"
proof (rule conjI)
  show "\<forall>u n'. transformUser rt n raw = Inr (u, n') \<longrightarrow>
      totalEngagement u = sum_list (map engagement (posts u))
      \<and> totalSales u = sum_list (map amount (salesAttributions u))"
    using transformUser_totals by blast
next
  show "\<forall>u \<in> set (fst (processBatch rt processedUserIds currentBatch)).
      totalEngagement u = sum_list (map engagement (posts u))
      \<and> totalSales u = sum_list (map amount (salesAttributions u))"
  proof
    fix u
    assume "u \<in> set (fst (processBatch rt processedUserIds currentBatch))"
    then obtain v where "u = recalculateTotals v"
      by (auto simp: processBatch_def Let_def)
    then show "totalEngagement u = sum_list (map engagement (posts u))
        \<and> totalSales u = sum_list (map amount (salesAttributions u))"
      using recalculateTotals_totals [of v] by simp
  qed
qed

theorem C2_totals_are_sums_witness:
  "transformUser sampleRuntime 0 specExample = Inr (specUser, 0)
   \<and> totalEngagement specUser = 13 \<and> sum_list (map engagement (posts specUser)) = 13
   \<and> totalSales specUser = 50 \<and> sum_list (map amount (salesAttributions specUser)) = 50
   \<and> fst (processBatch sampleRuntime {} [userA, userB])
       = [recalculateTotals (mergeUsers sampleRuntime userA userB)]
   \<and> totalEngagement (recalculateTotals (mergeUsers sampleRuntime userA userB))
       = sum_list (map engagement (posts (recalculateTotals (mergeUsers sampleRuntime userA userB))))
   \<and> totalSales (recalculateTotals (mergeUsers sampleRuntime userA userB))
       = sum_list (map amount (salesAttributions (recalculateTotals (mergeUsers sampleRuntime userA userB))))"
proof -
  have e: "transformUser sampleRuntime 0 specExample = Inr (specUser, 0)"
    by (simp add: transformer_defs specExample_def specUser_def emptyUser_def postT1_def)
  have a: "calculateCompletenessScore userA = calculateCompletenessScore userB"
    by (simp add: calculateCompletenessScore_def userA_def userB_def emptyUser_def
        postT1_def postT1'_def)
  have d: "deduplicateUsers sampleRuntime [userA, userB] = [mergeUsers sampleRuntime userA userB]"
    using a by (intro deduplicateUsers_pair) (simp_all add: userA_def userB_def)
  have b: "fst (processBatch sampleRuntime {} [userA, userB])
       = [recalculateTotals (mergeUsers sampleRuntime userA userB)]"
    by (simp add: processBatch_def d)
  have s: "totalEngagement specUser = 13" "sum_list (map engagement (posts specUser)) = 13"
    "totalSales specUser = 50" "sum_list (map amount (salesAttributions specUser)) = 50"
    by (simp_all add: specUser_def postT1_def)
  show ?thesis
    using C2_totals_are_sums [of sampleRuntime 0 specExample "{}" "[userA, userB]"]
    by (simp add: e b s)
qed

subsection \<open>Posts\<close>

lemma transformSocialPosts_item_Inr:
  assumes "transformSocialPosts_item rt n raw = Inr (p, n')"
  shows "\<exists>tid u. nonBlankString (getProp raw ''task_id'') = Inr tid
    \<and> nonBlankString (getProp raw ''post_url'') = Inr u
    \<and> p = \<lparr>postId = fst (case tid of Some s \<Rightarrow> (s, n) | None \<Rightarrow> generateId rt ''task_'' n),
           post_platform = (if truthy (getProp raw ''platform'') \<and> getProp raw ''platform'' \<noteq> JNull
                            then getProp raw ''platform'' else JString ''other''),
           url = u,
           likes = nanToZero (toNumber rt (getProp raw ''likes'')),
           comments = nanToZero (toNumber rt (getProp raw ''comments'')),
           shares = nanToZero (toNumber rt (getProp raw ''shares'')),
           reach = nanToZero (toNumber rt (getProp raw ''reach'')),
           engagement = nanToZero (toNumber rt (getProp raw ''likes''))
             + nanToZero (toNumber rt (getProp raw ''comments''))
             + nanToZero (toNumber rt (getProp raw ''shares''))\<rparr>"
proof -
  obtain tid where t: "nonBlankString (getProp raw ''task_id'') = Inr tid"
    using assms by (cases "nonBlankString (getProp raw ''task_id'')")
      (simp_all add: transformSocialPosts_item_def)
  obtain u where u: "nonBlankString (getProp raw ''post_url'') = Inr u"
    using assms by (cases "nonBlankString (getProp raw ''post_url'')")
      (simp_all add: transformSocialPosts_item_def t split: prod.splits)
  show ?thesis
    using assms
    by (auto simp: transformSocialPosts_item_def t u calculateEngagement_def orZero_id Let_def
        split: prod.splits)
qed

lemma truthy_other: "truthy (if truthy v \<and> v \<noteq> JNull then v else JString ''other'')"
  by simp

lemma transformSocialPosts_item_fields:
  assumes "transformSocialPosts_item rt n raw = Inr (p, n')"
  shows "likes p = nanToZero (toNumber rt (getProp raw ''likes''))"
    and "comments p = nanToZero (toNumber rt (getProp raw ''comments''))"
    and "shares p = nanToZero (toNumber rt (getProp raw ''shares''))"
    and "reach p = nanToZero (toNumber rt (getProp raw ''reach''))"
    and "engagement p = likes p + comments p + shares p"
    and "postId p \<noteq> []" and "truthy (post_platform p)"
proof -
  obtain tid u where t: "nonBlankString (getProp raw ''task_id'') = Inr tid"
    and p: "p = \<lparr>postId = fst (case tid of Some s \<Rightarrow> (s, n) | None \<Rightarrow> generateId rt ''task_'' n),
           post_platform = (if truthy (getProp raw ''platform'') \<and> getProp raw ''platform'' \<noteq> JNull
                            then getProp raw ''platform'' else JString ''other''),
           url = u,
           likes = nanToZero (toNumber rt (getProp raw ''likes'')),
           comments = nanToZero (toNumber rt (getProp raw ''comments'')),
           shares = nanToZero (toNumber rt (getProp raw ''shares'')),
           reach = nanToZero (toNumber rt (getProp raw ''reach'')),
           engagement = nanToZero (toNumber rt (getProp raw ''likes''))
             + nanToZero (toNumber rt (getProp raw ''comments''))
             + nanToZero (toNumber rt (getProp raw ''shares''))\<rparr>"
    using transformSocialPosts_item_Inr [OF assms] by blast
  show "likes p = nanToZero (toNumber rt (getProp raw ''likes''))"
    and "comments p = nanToZero (toNumber rt (getProp raw ''comments''))"
    and "shares p = nanToZero (toNumber rt (getProp raw ''shares''))"
    and "reach p = nanToZero (toNumber rt (getProp raw ''reach''))"
    and "engagement p = likes p + comments p + shares p"
    by (simp_all add: p)
  show "postId p \<noteq> []"
    using finalId_nonempty [OF t, where prefix = "''task_''" and n = n and rt = rt]
    by (simp add: p)
  show "truthy (post_platform p)"
    unfolding p by (simp only: socialPost.simps truthy_other)
qed

lemma transformSocialPosts_map_all2:
  "transformSocialPosts_map rt n raws = Inr (ps, n') \<Longrightarrow>
   list_all2 (\<lambda>raw p. \<exists>m m'. transformSocialPosts_item rt m raw = Inr (p, m')) raws ps"
proof (induction raws arbitrary: n ps)
  case Nil
  then show ?case by simp
next
  case (Cons r raws)
  then show ?case
    by (auto split: sum.splits prod.splits)
qed

lemma transformSocialPosts_all2:
  assumes "transformSocialPosts rt n rawPosts = Inr (ps, n')"
  shows "list_all2 (\<lambda>raw p. \<exists>m m'. transformSocialPosts_item rt m raw = Inr (p, m'))
           (filter isObject rawPosts) ps"
proof (cases "rawPosts = []")
  case True
  then show ?thesis using assms by (simp add: transformSocialPosts_def)
next
  case False
  then obtain qs where m: "transformSocialPosts_map rt n (filter isObject rawPosts) = Inr (qs, n')"
    and ps: "ps = filter (\<lambda>p. postId p \<noteq> [] \<and> truthy (post_platform p)) qs"
    using assms by (auto simp: transformSocialPosts_def split: sum.splits prod.splits)
  have a: "list_all2 (\<lambda>raw p. \<exists>m m'. transformSocialPosts_item rt m raw = Inr (p, m'))
           (filter isObject rawPosts) qs"
    using m by (rule transformSocialPosts_map_all2)
  have "filter (\<lambda>p. postId p \<noteq> [] \<and> truthy (post_platform p)) qs = qs"
    using a by (rule filter_all2_id) (auto dest: transformSocialPosts_item_fields(6,7))
  then show ?thesis using a ps by simp
qed

text \<open>
  Claim C9. When \<^verbatim>\<open>transformSocialPosts\<close> returns, its posts are those of the raw
  posts that are objects, one for one and in their order. In each of them a field
  \<open>likes\<close>, \<open>comments\<close>, \<open>shares\<close> or \<open>reach\<close> is 0 when the raw post does not have
  the field or \<^verbatim>\<open>Number\<close> of it is \<^verbatim>\<open>NaN\<close>, and is the number otherwise; and the
  engagement is the sum of the fields \<open>likes\<close>, \<open>comments\<close> and \<open>shares\<close> of the
  transformed post.
\<close>

theorem C9_post_fields_default_to_zero:
  assumes "transformSocialPosts rt n rawPosts = Inr (ps, n')"
  shows "list_all2 (\<lambda>raw p.
      (getProp raw ''likes'' = JUndefined \<or> toNumber rt (getProp raw ''likes'') = NaN
         \<longrightarrow> likes p = 0)
      \<and> (getProp raw ''comments'' = JUndefined \<or> toNumber rt (getProp raw ''comments'') = NaN
         \<longrightarrow> comments p = 0)
      \<and> (getProp raw ''shares'' = JUndefined \<or> toNumber rt (getProp raw ''shares'') = NaN
         \<longrightarrow> shares p = 0)
      \<and> (getProp raw ''reach'' = JUndefined \<or> toNumber rt (getProp raw ''reach'') = NaN
         \<longrightarrow> reach p = 0)
      \<and> (\<forall>x. toNumber rt (getProp raw ''likes'') = Num x \<longrightarrow> likes p = x)
      \<and> (\<forall>x. toNumber rt (getProp raw ''comments'') = Num x \<longrightarrow> comments p = x)
      \<and> (\<forall>x. toNumber rt (getProp raw ''shares'') = Num x \<longrightarrow> shares p = x)
      \<and> (\<forall>x. toNumber rt (getProp raw ''reach'') = Num x \<longrightarrow> reach p = x)
      \<and> engagement p = likes p + comments p + shares p)
    (filter isObject rawPosts) ps"
  using transformSocialPosts_all2 [OF assms]
proof (rule list_all2_mono)
  fix raw p
  assume "\<exists>m m'. transformSocialPosts_item rt m raw = Inr (p, m')"
  then obtain m m' where i: "transformSocialPosts_item rt m raw = Inr (p, m')" by blast
  show "(getProp raw ''likes'' = JUndefined \<or> toNumber rt (getProp raw ''likes'') = NaN
         \<longrightarrow> likes p = 0)
      \<and> (getProp raw ''comments'' = JUndefined \<or> toNumber rt (getProp raw ''comments'') = NaN
         \<longrightarrow> comments p = 0)
      \<and> (getProp raw ''shares'' = JUndefined \<or> toNumber rt (getProp raw ''shares'') = NaN
         \<longrightarrow> shares p = 0)
      \<and> (getProp raw ''reach'' = JUndefined \<or> toNumber rt (getProp raw ''reach'') = NaN
         \<longrightarrow> reach p = 0)
      \<and> (\<forall>x. toNumber rt (getProp raw ''likes'') = Num x \<longrightarrow> likes p = x)
      \<and> (\<forall>x. toNumber rt (getProp raw ''comments'') = Num x \<longrightarrow> comments p = x)
      \<and> (\<forall>x. toNumber rt (getProp raw ''shares'') = Num x \<longrightarrow> shares p = x)
      \<and> (\<forall>x. toNumber rt (getProp raw ''reach'') = Num x \<longrightarrow> reach p = x)
      \<and> engagement p = likes p + comments p + shares p"
    using transformSocialPosts_item_fields(1-5) [OF i]
    by (auto simp: nanToZero_def)
qed

theorem C9_post_fields_default_to_zero_witness:
  "transformSocialPosts sampleRuntime 0 [messyPost] =
     Inr ([\<lparr>postId = ''t9'', post_platform = JString ''instagram'', url = None,
            likes = 0, comments = 4, shares = 0, reach = 0, engagement = 4\<rparr>], 0)
   \<and> toNumber sampleRuntime (getProp messyPost ''likes'') = NaN
   \<and> getProp messyPost ''reach'' = JUndefined
   \<and> toNumber sampleRuntime (getProp messyPost ''comments'') = Num 4"
proof -
  have e: "transformSocialPosts sampleRuntime 0 [messyPost] =
     Inr ([\<lparr>postId = ''t9'', post_platform = JString ''instagram'', url = None,
            likes = 0, comments = 4, shares = 0, reach = 0, engagement = 4\<rparr>], 0)"
    by (simp add: transformer_defs messyPost_def sampleRuntime_def digitValue_def)
  show ?thesis
    using C9_post_fields_default_to_zero [OF e]
    by (simp add: e) (simp add: messyPost_def sampleRuntime_def digitValue_def)
qed

subsection \<open>Timestamps\<close>





subsection \<open>Programs\<close>

lemma transformPrograms_item_Inr:
  assumes "transformPrograms_item rt n prog = Inr (p, n')"
  shows "programName p = finalBrand rt (getProp prog ''brand'')" and "programId p \<noteq> []"
proof -
  obtain pid where t: "nonBlankString (getProp prog ''program_id'') = Inr pid"
    using assms by (cases "nonBlankString (getProp prog ''program_id'')")
      (simp_all add: transformPrograms_item_def)
  have p: "p = \<lparr>programId = fst (case pid of Some s \<Rightarrow> (s, n) | None \<Rightarrow> generateId rt ''program_'' n),
                programName = finalBrand rt (getProp prog ''brand'')\<rparr>"
    using assms by (auto simp: transformPrograms_item_def t split: prod.splits)
  show "programName p = finalBrand rt (getProp prog ''brand'')"
    by (simp add: p)
  show "programId p \<noteq> []"
    using finalId_nonempty [OF t, where prefix = "''program_''" and n = n and rt = rt]
    by (simp add: p)
qed

lemma transformPrograms_map_all2:
  "transformPrograms_map rt n progs = Inr (ps, n') \<Longrightarrow>
   list_all2 (\<lambda>prog p. \<exists>m m'. transformPrograms_item rt m prog = Inr (p, m')) progs ps"
proof (induction progs arbitrary: n ps)
  case Nil
  then show ?case by simp
next
  case (Cons r progs)
  then show ?case
    by (auto split: sum.splits prod.splits)
qed

lemma transformPrograms_all2:
  assumes "transformPrograms rt n (JArray progs) = Inr (ps, n')"
  shows "\<exists>items. list_all2 (\<lambda>prog p. \<exists>m m'. transformPrograms_item rt m prog = Inr (p, m'))
           (filter isObject progs) items \<and> ps = filter keepProgram items"
proof (cases "progs = []")
  case True
  then show ?thesis using assms by (simp add: transformPrograms_def)
next
  case False
  then obtain qs where m: "transformPrograms_map rt n (filter isObject progs) = Inr (qs, n')"
    and ps: "ps = filter keepProgram qs"
    using assms by (auto simp: transformPrograms_def split: sum.splits prod.splits)
  show ?thesis
    using transformPrograms_map_all2 [OF m] ps by blast
qed

lemma transformUser_programs:
  "transformUser rt n raw = Inr (u, n') \<Longrightarrow>
   \<exists>m. transformPrograms rt m (getProp raw ''advocacy_programs'') = Inr (programs u, n')"
  by (auto simp: transformUser_def Let_def split: if_splits sum.splits prod.splits)

lemma keepProgram_brand:
  assumes "programName p = finalBrand rt b" and "programId p \<noteq> []"
  shows "keepProgram p \<longleftrightarrow>
     truthy b \<and> toStringJS rt b \<noteq> [] \<and> toStringJS rt b \<noteq> ''Unknown Program''"
  using assms by (cases b) (auto simp: keepProgram_def finalBrand_def)

lemma extractProgram_brand:
  "extractProgram rt acc (JObject ((''brand'', b) # kvs))
     = extractProgram rt acc (JObject ((''brand'', b') # kvs))"
  by (simp add: extractProgram_def)

text \<open>
  Claim C7, as the code has it. The validator accepts the record \<open>blankBrandRecord\<close>
  and leaves it as it is. The brand of its program is a string of one space: that text
  is blank, it is empty once trimmed. The program is in the programs of the entity all
  the same, under the name of one space.
\<close>

theorem C7_blank_brand_counterexample:
  "success (validateUser sampleRuntime blankBrandRecord)
   \<and> data (validateUser sampleRuntime blankBrandRecord) = Some blankBrandRecord
   \<and> transformUser sampleRuntime 0 blankBrandRecord = Inr (blankBrandUser, 0)
   \<and> programs blankBrandUser = [\<lparr>programId = ''p1'', programName = '' ''\<rparr>]
   \<and> toStringJS sampleRuntime (JString '' '') = '' ''
   \<and> trim '' '' = []
   \<and> \<not> (programs blankBrandUser \<noteq> [] \<longleftrightarrow>
          trim (toStringJS sampleRuntime (JString '' '')) \<noteq> []
          \<and> toStringJS sampleRuntime (JString '' '') \<noteq> ''Unknown Program'')"
proof -
  have v: "validateUser sampleRuntime blankBrandRecord
      = \<lparr>success = True, data = Some blankBrandRecord, isClean = False\<rparr>"
    by (simp add: validator_defs blankBrandRecord_def trim_def isWhiteSpace_def
        toLowerCase_def toLowerChar_def)
  have t: "transformUser sampleRuntime 0 blankBrandRecord = Inr (blankBrandUser, 0)"
    by (simp add: transformer_defs blankBrandRecord_def blankBrandUser_def emptyUser_def
        postT1'_def)
  have r: "programs blankBrandUser = [\<lparr>programId = ''p1'', programName = '' ''\<rparr>]"
    "trim '' '' = []"
    by (simp_all add: blankBrandUser_def trim_def isWhiteSpace_def)
  show ?thesis by (simp add: v t r)
qed

text \<open>
  Claim C7, amended. Let \<^verbatim>\<open>transformUser\<close> return an entity for a raw record whose
  \<open>advocacy_programs\<close> is an array. Each entry of the array that is an object gives a
  program whose name is the text of its brand, or \<open>Unknown Program\<close> when the brand is
  falsy (absent, \<^verbatim>\<open>null\<close>, the empty string, 0, \<^verbatim>\<open>NaN\<close>, \<^verbatim>\<open>false\<close>), and the
  programs of the entity are, in their order, those of these programs that are kept. A
  program is kept if and only if the brand is truthy and its text is neither empty nor
  \<open>Unknown Program\<close>; for a brand that is a string: if and only if the string is
  neither empty nor \<open>Unknown Program\<close>. The text is not trimmed, so a brand of white
  space is kept. What an entry adds to the posts and the sales of the entity does not
  depend on its brand.
\<close>

theorem C7_programs_kept_by_brand:
  assumes "transformUser rt n raw = Inr (u, n')"
    and "getProp raw ''advocacy_programs'' = JArray progs"
  shows "(\<exists>items.
      list_all2 (\<lambda>prog p.
          programName p = finalBrand rt (getProp prog ''brand'')
          \<and> (keepProgram p \<longleftrightarrow>
               truthy (getProp prog ''brand'')
               \<and> toStringJS rt (getProp prog ''brand'') \<noteq> []
               \<and> toStringJS rt (getProp prog ''brand'') \<noteq> ''Unknown Program'')
          \<and> (\<forall>s. getProp prog ''brand'' = JString s \<longrightarrow>
               (keepProgram p \<longleftrightarrow> s \<noteq> [] \<and> s \<noteq> ''Unknown Program'')))
        (filter isObject progs) items
      \<and> programs u = filter keepProgram items)
    \<and> extractProgram rt acc (JObject ((''brand'', b) # kvs))
        = extractProgram rt acc (JObject ((''brand'', b') # kvs))"
proof -
  obtain m where "transformPrograms rt m (JArray progs) = Inr (programs u, n')"
    using transformUser_programs [OF assms(1)] assms(2) by auto
  then obtain items where
    a: "list_all2 (\<lambda>prog p. \<exists>m m'. transformPrograms_item rt m prog = Inr (p, m'))
           (filter isObject progs) items"
    and f: "programs u = filter keepProgram items"
    using transformPrograms_all2 by blast
  have "list_all2 (\<lambda>prog p.
          programName p = finalBrand rt (getProp prog ''brand'')
          \<and> (keepProgram p \<longleftrightarrow>
               truthy (getProp prog ''brand'')
               \<and> toStringJS rt (getProp prog ''brand'') \<noteq> []
               \<and> toStringJS rt (getProp prog ''brand'') \<noteq> ''Unknown Program'')
          \<and> (\<forall>s. getProp prog ''brand'' = JString s \<longrightarrow>
               (keepProgram p \<longleftrightarrow> s \<noteq> [] \<and> s \<noteq> ''Unknown Program'')))
        (filter isObject progs) items"
    using a
  proof (rule list_all2_mono)
    fix prog p
    assume "\<exists>m m'. transformPrograms_item rt m prog = Inr (p, m')"
    then obtain m m' where i: "transformPrograms_item rt m prog = Inr (p, m')" by blast
    note n = transformPrograms_item_Inr [OF i]
    show "programName p = finalBrand rt (getProp prog ''brand'')
          \<and> (keepProgram p \<longleftrightarrow>
               truthy (getProp prog ''brand'')
               \<and> toStringJS rt (getProp prog ''brand'') \<noteq> []
               \<and> toStringJS rt (getProp prog ''brand'') \<noteq> ''Unknown Program'')
          \<and> (\<forall>s. getProp prog ''brand'' = JString s \<longrightarrow>
               (keepProgram p \<longleftrightarrow> s \<noteq> [] \<and> s \<noteq> ''Unknown Program''))"
      using n keepProgram_brand [OF n] by auto
  qed
  then show ?thesis using f extractProgram_brand by blast
qed

theorem C7_programs_kept_by_brand_witness:
  "transformUser sampleRuntime 0 noBrandRecord = Inr (noBrandUser, 0)
   \<and> getProp noBrandRecord ''advocacy_programs'' = JArray [noBrandProgram]
   \<and> getProp noBrandProgram ''brand'' = JNull
   \<and> programs noBrandUser = []
   \<and> posts noBrandUser = [postT1']
   \<and> salesAttributions noBrandUser = [\<lparr>sale_programId = ''p1'', amount = 100\<rparr>]
   \<and> transformUser sampleRuntime 0 specExample = Inr (specUser, 0)
   \<and> programs specUser = [\<lparr>programId = ''p1'', programName = ''Acme''\<rparr>]"
proof -
  have t: "transformUser sampleRuntime 0 noBrandRecord = Inr (noBrandUser, 0)"
    by (simp add: transformer_defs noBrandRecord_def noBrandProgram_def noBrandUser_def
        emptyUser_def postT1'_def)
  have g: "getProp noBrandRecord ''advocacy_programs'' = JArray [noBrandProgram]"
    by (simp add: noBrandRecord_def)
  have e: "transformUser sampleRuntime 0 specExample = Inr (specUser, 0)"
    by (simp add: transformer_defs specExample_def specUser_def emptyUser_def postT1_def)
  have r: "getProp noBrandProgram ''brand'' = JNull" "programs noBrandUser = []"
    "posts noBrandUser = [postT1']"
    "salesAttributions noBrandUser = [\<lparr>sale_programId = ''p1'', amount = 100\<rparr>]"
    "programs specUser = [\<lparr>programId = ''p1'', programName = ''Acme''\<rparr>]"
    by (simp_all add: noBrandProgram_def noBrandUser_def specUser_def emptyUser_def)
  show ?thesis
    using C7_programs_kept_by_brand [OF t g] by (simp add: t g e r)
qed

section \<open>The validator and the transformer\<close>

















































end
